theory Spec2Isabelle
  imports Complex_Main
begin

section \<open>Tensors and the tensor library\<close>

text \<open>
  The architecture file \<^verbatim>\<open>utils/architectures/RIFE_HD_arch.py\<close> composes layers of the
  tensor library into the RIFE frame interpolation network. A tensor is modelled as a
  four-dimensional array in the layout the source uses throughout (batch, channels, height,
  width). An operation of the library that raises for incompatible shapes returns \<open>Inl\<close> of
  the error; the value \<open>None\<close> of Python is the \<open>None\<close> of an option type.

  The elements of a tensor are floating-point numbers. The model keeps the value that is not
  a number, \<open>NaN\<close>, which every arithmetic operation, \<open>torch.sigmoid\<close> and \<open>torch.clamp\<close>
  hand on, and takes every other element as a real number: rounding, overflow and the two
  infinities are not modelled.
\<close>

datatype error = RuntimeError | TypeError | AttributeError | IndexError | ZeroDivisionError

datatype scalar = NaN | Num real

fun lift1 :: "(real \<Rightarrow> real) \<Rightarrow> scalar \<Rightarrow> scalar" where
  "lift1 f NaN = NaN"
| "lift1 f (Num v) = Num (f v)"

fun lift2 :: "(real \<Rightarrow> real \<Rightarrow> real) \<Rightarrow> scalar \<Rightarrow> scalar \<Rightarrow> scalar" where
  "lift2 f (Num u) (Num v) = Num (f u v)"
| "lift2 f _ _ = NaN"

definition fadd :: "scalar \<Rightarrow> scalar \<Rightarrow> scalar" where
  "fadd = lift2 (+)"

definition fmul :: "scalar \<Rightarrow> scalar \<Rightarrow> scalar" where
  "fmul = lift2 (*)"

type_synonym data = "nat \<Rightarrow> nat \<Rightarrow> nat \<Rightarrow> nat \<Rightarrow> scalar"

record tensor =
  batch :: nat
  chans :: nat
  height :: nat
  width :: nat
  elems :: data

type_synonym shape = "nat \<times> nat \<times> nat \<times> nat"

definition shape :: "tensor \<Rightarrow> shape" where
  "shape x = (batch x, chans x, height x, width x)"

definition bindE :: "error + 'a \<Rightarrow> ('a \<Rightarrow> error + 'b) \<Rightarrow> error + 'b" where
  "bindE m f = (case m of Inl e \<Rightarrow> Inl e | Inr v \<Rightarrow> f v)"

text \<open>Elementwise operations with a scalar: \<open>-x\<close>, \<open>x * 0.5\<close>, \<open>1 - x\<close>, \<open>torch.sigmoid\<close>,
  \<open>torch.clamp\<close>.\<close>

definition tmap :: "(scalar \<Rightarrow> scalar) \<Rightarrow> tensor \<Rightarrow> tensor" where
  "tmap f x = x\<lparr>elems := (\<lambda>n c i j. f (elems x n c i j))\<rparr>"

definition neg :: "tensor \<Rightarrow> tensor" where
  "neg x = tmap (lift1 uminus) x"

fun sigmoid :: "scalar \<Rightarrow> scalar" where
  "sigmoid NaN = NaN"
| "sigmoid (Num v) = Num (1 / (1 + exp (- v)))"

fun clamp :: "real \<Rightarrow> real \<Rightarrow> scalar \<Rightarrow> scalar" where
  "clamp lo hi NaN = NaN"
| "clamp lo hi (Num v) = Num (min (max v lo) hi)"

text \<open>Elementwise operations on two tensors broadcast: two sizes of a dimension are
  compatible when they are equal or one of them is 1, and a dimension of size 1 is read at
  index 0.\<close>

definition bdim :: "nat \<Rightarrow> nat \<Rightarrow> nat option" where
  "bdim a b = (if a = b then Some a else if a = 1 then Some b else if b = 1 then Some a else None)"

definition bidx :: "nat \<Rightarrow> nat \<Rightarrow> nat" where
  "bidx d i = (if d = 1 then 0 else i)"

definition binop :: "(scalar \<Rightarrow> scalar \<Rightarrow> scalar) \<Rightarrow> tensor \<Rightarrow> tensor \<Rightarrow> error + tensor" where
  "binop f a b =
     (case (bdim (batch a) (batch b), bdim (chans a) (chans b),
            bdim (height a) (height b), bdim (width a) (width b)) of
        (Some n, Some c, Some h, Some w) \<Rightarrow>
          Inr \<lparr>batch = n, chans = c, height = h, width = w,
               elems = (\<lambda>n c i j.
                 f (elems a (bidx (batch a) n) (bidx (chans a) c) (bidx (height a) i) (bidx (width a) j))
                   (elems b (bidx (batch b) n) (bidx (chans b) c) (bidx (height b) i) (bidx (width b) j)))\<rparr>
      | _ \<Rightarrow> Inl RuntimeError)"

definition tadd :: "tensor \<Rightarrow> tensor \<Rightarrow> error + tensor" where
  "tadd a b = binop fadd a b"

definition tmul :: "tensor \<Rightarrow> tensor \<Rightarrow> error + tensor" where
  "tmul a b = binop fmul a b"

text \<open>The channel slice \<open>x[:, lo:hi]\<close>; \<open>hi = None\<close> is the open slice \<open>x[:, lo:]\<close>. Python
  clips both bounds to the number of channels and never raises.\<close>

definition slice :: "tensor \<Rightarrow> nat \<Rightarrow> nat option \<Rightarrow> tensor" where
  "slice x lo hi =
     (let stop = (case hi of None \<Rightarrow> chans x | Some h \<Rightarrow> min h (chans x));
          start = min lo (chans x)
      in x\<lparr>chans := stop - start, elems := (\<lambda>n c i j. elems x n (c + start) i j)\<rparr>)"

text \<open>\<open>torch.cat(ts, 1)\<close>: concatenation along the channels; the other dimensions must
  agree.\<close>

fun cat :: "tensor list \<Rightarrow> error + tensor" where
  "cat [] = Inl RuntimeError"
| "cat [t] = Inr t"
| "cat (t # ts) =
     bindE (cat ts) (\<lambda>r.
       if batch t = batch r \<and> height t = height r \<and> width t = width r
       then Inr \<lparr>batch = batch t, chans = chans t + chans r, height = height t, width = width t,
                 elems = (\<lambda>n c i j. if c < chans t then elems t n c i j
                                     else elems r n (c - chans t) i j)\<rparr>
       else Inl RuntimeError)"

text \<open>\<open>x.mean(3, True).mean(2, True)\<close>: the mean over the width and then over the height,
  both dimensions kept with size 1. The mean over an empty dimension is \<open>NaN\<close>.\<close>

definition fmean :: "scalar list \<Rightarrow> scalar" where
  "fmean vs = (if vs = [] then NaN
               else lift1 (\<lambda>s. s / real (length vs)) (foldl fadd (Num 0) vs))"

definition mean3 :: "tensor \<Rightarrow> tensor" where
  "mean3 x = x\<lparr>width := 1,
     elems := (\<lambda>n c i j. fmean (map (\<lambda>k. elems x n c i k) [0 ..< width x]))\<rparr>"

definition mean2 :: "tensor \<Rightarrow> tensor" where
  "mean2 x = x\<lparr>height := 1,
     elems := (\<lambda>n c i j. fmean (map (\<lambda>k. elems x n c k j) [0 ..< height x]))\<rparr>"

text \<open>Indexing a Python list raises IndexError out of range.\<close>

definition getitem :: "'a list \<Rightarrow> nat \<Rightarrow> error + 'a" where
  "getitem xs i = (if i < length xs then Inr (xs ! i) else Inl IndexError)"

subsection \<open>Primitives supplied from outside the file\<close>

text \<open>
  Two primitives are not defined by the architecture file and are parameters of the model:
  \<^item> \<open>warp\<close>, imported from \<^verbatim>\<open>utils.architectures.video\<close>;
  \<^item> \<open>bilinear\<close>, the values that \<open>F.interpolate(mode="bilinear", align_corners=False)\<close>
    computes for an input and a scale factor.
  The size that \<open>F.interpolate\<close> gives a dimension is the floor of the size times the scale
  factor. Every scale factor of the file (0.5, 2.0, \<open>1/scale\<close> and \<open>scale\<close> for the scales
  8, 4, 2) is an exact binary fraction, so a factor is given as a numerator and a
  denominator and the floor is the integer quotient. The library refuses an output
  dimension of size 0.
\<close>

record prims =
  warp :: "tensor \<Rightarrow> tensor \<Rightarrow> error + tensor"
  bilinear :: "tensor \<Rightarrow> nat \<Rightarrow> nat \<Rightarrow> data"

definition interpolate :: "prims \<Rightarrow> tensor \<Rightarrow> nat \<Rightarrow> nat \<Rightarrow> error + tensor" where
  "interpolate P x num den =
     (if den = 0 then Inl ZeroDivisionError
      else if height x * num div den = 0 \<or> width x * num div den = 0 then Inl RuntimeError
      else Inr \<lparr>batch = batch x, chans = chans x,
                height = height x * num div den, width = width x * num div den,
                elems = bilinear P x num den\<rparr>)"

text \<open>
  Modelled from the spec: the contract of the warp primitive, whose code is not in the
  architecture file. The spec describes it as \<open>warp(image, flow) -> image'\<close>, a resampling of
  the image by a per-pixel two-dimensional displacement field that supports any spatial
  resolution matching its inputs: for a flow of two channels with the batch size and the
  spatial size of the image it returns a tensor of the shape of the image. Nothing is
  assumed of it on other inputs.
\<close>

definition warp_contract :: "prims \<Rightarrow> bool" where
  "warp_contract P \<longleftrightarrow>
     (\<forall>img flow. batch flow = batch img \<and> chans flow = 2 \<and>
                 height flow = height img \<and> width flow = width img \<longrightarrow>
        (\<exists>out. warp P img flow = Inr out \<and> shape out = shape img))"

subsection \<open>Layers\<close>

text \<open>
  A layer with learned parameters (\<open>nn.Conv2d\<close>, \<open>nn.ConvTranspose2d\<close>, \<open>nn.BatchNorm2d\<close>,
  \<open>nn.PReLU\<close>) carries, besides the arguments it is constructed with, the function from
  its input to the elements of its output that its parameters determine; the layers are in
  evaluation mode, where \<open>RIFE.__init__\<close> puts the three networks. The shape of the output
  follows the library's rules: a convolution of kernel size \<open>k\<close>, stride \<open>s\<close>, padding \<open>p\<close>
  and dilation \<open>d\<close> maps a size \<open>h\<close> to \<open>(h + 2p - d(k-1) - 1) div s + 1\<close>, a transposed
  convolution to \<open>(h-1)s - 2p + (k-1) + 1\<close>, and \<open>nn.PixelShuffle(r)\<close> moves a factor \<open>r*r\<close>
  of the channels into the two spatial dimensions.
\<close>

type_synonym learned = "tensor \<Rightarrow> data"

datatype module =
    Identity
  | Conv2d nat nat nat nat nat nat bool learned
  | ConvTranspose2d nat nat nat nat nat bool learned
  | BatchNorm2d nat learned
  | PReLU nat learned
  | PixelShuffle nat
  | Sequential "module list"

definition conv_size :: "nat \<Rightarrow> nat \<Rightarrow> nat \<Rightarrow> nat \<Rightarrow> nat \<Rightarrow> nat" where
  "conv_size h k s p d = (h + 2 * p - (d * (k - 1) + 1)) div s + 1"

definition conv_fits :: "nat \<Rightarrow> nat \<Rightarrow> nat \<Rightarrow> nat \<Rightarrow> nat \<Rightarrow> bool" where
  "conv_fits h k s p d \<longleftrightarrow> 0 < k \<and> 0 < s \<and> 0 < d \<and> d * (k - 1) + 1 \<le> h + 2 * p"

definition deconv_size :: "nat \<Rightarrow> nat \<Rightarrow> nat \<Rightarrow> nat \<Rightarrow> nat" where
  "deconv_size h k s p = (h - 1) * s + (k - 1) + 1 - 2 * p"

fun forward :: "module \<Rightarrow> tensor \<Rightarrow> error + tensor"
  and forward_seq :: "module list \<Rightarrow> tensor \<Rightarrow> error + tensor" where
  "forward Identity x = Inr x"
| "forward (Conv2d cin cout k s p d bias f) x =
     (if chans x = cin \<and> conv_fits (height x) k s p d \<and> conv_fits (width x) k s p d
      then Inr \<lparr>batch = batch x, chans = cout,
                height = conv_size (height x) k s p d, width = conv_size (width x) k s p d,
                elems = f x\<rparr>
      else Inl RuntimeError)"
| "forward (ConvTranspose2d cin cout k s p bias f) x =
     (if chans x = cin \<and> 0 < height x \<and> 0 < width x \<and> 0 < s \<and>
         2 * p < (height x - 1) * s + (k - 1) + 1 \<and> 2 * p < (width x - 1) * s + (k - 1) + 1
      then Inr \<lparr>batch = batch x, chans = cout,
                height = deconv_size (height x) k s p, width = deconv_size (width x) k s p,
                elems = f x\<rparr>
      else Inl RuntimeError)"
| "forward (BatchNorm2d n f) x =
     (if chans x = n then Inr (x\<lparr>elems := f x\<rparr>) else Inl RuntimeError)"
| "forward (PReLU n f) x =
     (if n = 1 \<or> chans x = n then Inr (x\<lparr>elems := f x\<rparr>) else Inl RuntimeError)"
| "forward (PixelShuffle r) x =
     (if 0 < r \<and> chans x mod (r * r) = 0
      then Inr \<lparr>batch = batch x, chans = chans x div (r * r),
                height = height x * r, width = width x * r,
                elems = (\<lambda>n c i j. elems x n (c * r * r + (i mod r) * r + j mod r) (i div r) (j div r))\<rparr>
      else Inl RuntimeError)"
| "forward (Sequential ms) x = forward_seq ms x"
| "forward_seq [] x = Inr x"
| "forward_seq (m # ms) x = bindE (forward m x) (forward_seq ms)"

text \<open>Calling an attribute that holds \<open>None\<close> raises TypeError; reading an attribute that
  was never assigned raises AttributeError.\<close>

definition call :: "module option \<Rightarrow> tensor \<Rightarrow> error + tensor" where
  "call m x = (case m of None \<Rightarrow> Inl TypeError | Some f \<Rightarrow> forward f x)"

definition getattr :: "'a option \<Rightarrow> error + 'a" where
  "getattr a = (case a of None \<Rightarrow> Inl AttributeError | Some v \<Rightarrow> Inr v)"

text \<open>
  The constructors of the source create the learned parameters of every layer. The model
  passes them in as a state dictionary from the name of a layer to its learned function;
  \<open>sub \<theta> name\<close> is the dictionary of the submodule stored under the attribute \<open>name\<close>.
\<close>

type_synonym state_dict = "string \<Rightarrow> learned"

definition sub :: "state_dict \<Rightarrow> string \<Rightarrow> state_dict" where
  "sub \<theta> name = (\<lambda>k. \<theta> (name @ ''.'' @ k))"

section \<open>The primitive builders\<close>

definition conv :: "state_dict \<Rightarrow> nat \<Rightarrow> nat \<Rightarrow> nat \<Rightarrow> nat \<Rightarrow> nat \<Rightarrow> nat \<Rightarrow> string option \<Rightarrow> module option" where
  "conv \<theta> in_planes out_planes kernel_size stride padding dilation mode =
     (if mode = Some ''rife'' then
        Some (Sequential [
          Conv2d in_planes out_planes kernel_size stride padding dilation True (\<theta> ''0''),
          PReLU out_planes (\<theta> ''1'')])
      else if mode = Some ''ifnet'' then
        Some (Sequential [
          Conv2d in_planes out_planes kernel_size stride padding dilation False (\<theta> ''0''),
          BatchNorm2d out_planes (\<theta> ''1''),
          PReLU out_planes (\<theta> ''2'')])
      else None)"

text \<open>\<open>deconv\<close> takes a kernel size, a stride and a padding and passes the literals 4, 2
  and 1 to the layer.\<close>

definition deconv :: "state_dict \<Rightarrow> nat \<Rightarrow> nat \<Rightarrow> nat \<Rightarrow> nat \<Rightarrow> nat \<Rightarrow> module" where
  "deconv \<theta> in_planes out_planes kernel_size stride padding =
     Sequential [
       ConvTranspose2d in_planes out_planes 4 2 1 True (\<theta> ''0''),
       PReLU out_planes (\<theta> ''1'')]"

definition conv_woact :: "state_dict \<Rightarrow> nat \<Rightarrow> nat \<Rightarrow> nat \<Rightarrow> nat \<Rightarrow> nat \<Rightarrow> nat \<Rightarrow> string option \<Rightarrow> module option" where
  "conv_woact \<theta> in_planes out_planes kernel_size stride padding dilation mode =
     (if mode = Some ''rife'' then
        Some (Sequential [
          Conv2d in_planes out_planes kernel_size stride padding dilation True (\<theta> ''0'')])
      else if mode = Some ''ifnet'' then
        Some (Sequential [
          Conv2d in_planes out_planes kernel_size stride padding dilation False (\<theta> ''0''),
          BatchNorm2d out_planes (\<theta> ''1'')])
      else None)"

section \<open>ResBlock\<close>

text \<open>The attribute \<open>conv1\<close> is assigned in the branches for the two modes only: under any
  other mode the block has no such attribute.\<close>

record ResBlock =
  conv0 :: module
  conv1 :: "module option option"
  conv2 :: "module option"
  relu1 :: module
  relu2 :: module
  fc1 :: module
  fc2 :: module

definition ResBlock_init :: "state_dict \<Rightarrow> nat \<Rightarrow> nat \<Rightarrow> nat \<Rightarrow> string option \<Rightarrow> ResBlock" where
  "ResBlock_init \<theta> in_planes out_planes stride mode =
     \<lparr>conv0 = (if in_planes = out_planes \<and> stride = 1 then Identity
               else Conv2d in_planes out_planes 3 stride 1 1 False (\<theta> ''conv0'')),
      conv1 = (if mode = Some ''rife''
               then Some (conv (sub \<theta> ''conv1'') in_planes out_planes 3 stride 1 1 mode)
               else if mode = Some ''ifnet''
               then Some (conv (sub \<theta> ''conv1'') in_planes out_planes 5 stride 2 1 mode)
               else None),
      conv2 = conv_woact (sub \<theta> ''conv2'') out_planes out_planes 3 1 1 1 mode,
      relu1 = PReLU 1 (\<theta> ''relu1''),
      relu2 = PReLU out_planes (\<theta> ''relu2''),
      fc1 = Conv2d out_planes 16 1 1 0 1 False (\<theta> ''fc1''),
      fc2 = Conv2d 16 out_planes 1 1 0 1 False (\<theta> ''fc2'')\<rparr>"

definition ResBlock_forward :: "ResBlock \<Rightarrow> tensor \<Rightarrow> error + tensor" where
  "ResBlock_forward self x =
     bindE (forward (ResBlock.conv0 self) x) (\<lambda>y.
     bindE (getattr (ResBlock.conv1 self)) (\<lambda>conv1.
     bindE (call conv1 x) (\<lambda>x.
     bindE (call (ResBlock.conv2 self) x) (\<lambda>x.
     let w = mean2 (mean3 x) in
     bindE (forward (fc1 self) w) (\<lambda>w.
     bindE (forward (relu1 self) w) (\<lambda>w.
     bindE (forward (fc2 self) w) (\<lambda>w.
     let w = tmap sigmoid w in
     bindE (tmul x w) (\<lambda>xw.
     bindE (tadd xw y) (\<lambda>s.
     forward (relu2 self) s)))))))))"

section \<open>IFBlock\<close>

record IFBlock =
  scale :: nat
  conv0 :: "module option"
  res0 :: ResBlock
  res1 :: ResBlock
  res2 :: ResBlock
  res3 :: ResBlock
  res4 :: ResBlock
  res5 :: ResBlock
  conv1 :: module
  up :: module

definition IFBlock_init :: "state_dict \<Rightarrow> nat \<Rightarrow> nat \<Rightarrow> nat \<Rightarrow> IFBlock" where
  "IFBlock_init \<theta> in_planes scale' c =
     \<lparr>scale = scale',
      conv0 = conv (sub \<theta> ''conv0'') in_planes c 5 2 2 1 (Some ''ifnet''),
      res0 = ResBlock_init (sub \<theta> ''res0'') c c 1 (Some ''ifnet''),
      res1 = ResBlock_init (sub \<theta> ''res1'') c c 1 (Some ''ifnet''),
      res2 = ResBlock_init (sub \<theta> ''res2'') c c 1 (Some ''ifnet''),
      res3 = ResBlock_init (sub \<theta> ''res3'') c c 1 (Some ''ifnet''),
      res4 = ResBlock_init (sub \<theta> ''res4'') c c 1 (Some ''ifnet''),
      res5 = ResBlock_init (sub \<theta> ''res5'') c c 1 (Some ''ifnet''),
      conv1 = Conv2d c 8 3 1 1 1 True (\<theta> ''conv1''),
      up = PixelShuffle 2\<rparr>"

definition IFBlock_forward :: "prims \<Rightarrow> IFBlock \<Rightarrow> tensor \<Rightarrow> error + tensor" where
  "IFBlock_forward P self x =
     bindE (if scale self \<noteq> 1 then interpolate P x 1 (scale self) else Inr x) (\<lambda>x.
     bindE (call (IFBlock.conv0 self) x) (\<lambda>x.
     bindE (ResBlock_forward (res0 self) x) (\<lambda>x.
     bindE (ResBlock_forward (res1 self) x) (\<lambda>x.
     bindE (ResBlock_forward (res2 self) x) (\<lambda>x.
     bindE (ResBlock_forward (res3 self) x) (\<lambda>x.
     bindE (ResBlock_forward (res4 self) x) (\<lambda>x.
     bindE (ResBlock_forward (res5 self) x) (\<lambda>x.
     bindE (forward (IFBlock.conv1 self) x) (\<lambda>x.
     bindE (forward (up self) x) (\<lambda>flow.
     if scale self \<noteq> 1 then interpolate P flow (scale self) 1 else Inr flow))))))))))"

section \<open>IFNet\<close>

record IFNet =
  block0 :: IFBlock
  block1 :: IFBlock
  block2 :: IFBlock
  block3 :: IFBlock

definition IFNet_init :: "state_dict \<Rightarrow> IFNet" where
  "IFNet_init \<theta> =
     \<lparr>block0 = IFBlock_init (sub \<theta> ''block0'') 6 8 192,
      block1 = IFBlock_init (sub \<theta> ''block1'') 8 4 128,
      block2 = IFBlock_init (sub \<theta> ''block2'') 8 2 96,
      block3 = IFBlock_init (sub \<theta> ''block3'') 8 1 48\<rparr>"

definition IFNet_forward :: "prims \<Rightarrow> IFNet \<Rightarrow> tensor \<Rightarrow> error + tensor \<times> tensor list" where
  "IFNet_forward P self x =
     bindE (interpolate P x 1 2) (\<lambda>x.
     bindE (IFBlock_forward P (block0 self) x) (\<lambda>flow0.
     let F1 = flow0 in
     bindE (warp P (slice x 0 (Some 3)) F1) (\<lambda>warped_img0.
     bindE (warp P (slice x 3 None) (neg F1)) (\<lambda>warped_img1.
     bindE (cat [warped_img0, warped_img1, F1]) (\<lambda>t.
     bindE (IFBlock_forward P (block1 self) t) (\<lambda>flow1.
     bindE (tadd flow0 flow1) (\<lambda>F2.
     bindE (warp P (slice x 0 (Some 3)) F2) (\<lambda>warped_img0.
     bindE (warp P (slice x 3 None) (neg F2)) (\<lambda>warped_img1.
     bindE (cat [warped_img0, warped_img1, F2]) (\<lambda>t.
     bindE (IFBlock_forward P (block2 self) t) (\<lambda>flow2.
     bindE (tadd flow0 flow1) (\<lambda>s.
     bindE (tadd s flow2) (\<lambda>F3.
     bindE (warp P (slice x 0 (Some 3)) F3) (\<lambda>warped_img0.
     bindE (warp P (slice x 3 None) (neg F3)) (\<lambda>warped_img1.
     bindE (cat [warped_img0, warped_img1, F3]) (\<lambda>t.
     bindE (IFBlock_forward P (block3 self) t) (\<lambda>flow3.
     bindE (tadd flow0 flow1) (\<lambda>s.
     bindE (tadd s flow2) (\<lambda>s.
     bindE (tadd s flow3) (\<lambda>F4.
     Inr (F4, [F1, F2, F3, F4])))))))))))))))))))))"

section \<open>ContextNet\<close>

record ContextNet =
  conv0 :: "module option"
  conv1 :: ResBlock
  conv2 :: ResBlock
  conv3 :: ResBlock
  conv4 :: ResBlock

definition ContextNet_init :: "state_dict \<Rightarrow> nat \<Rightarrow> ContextNet" where
  "ContextNet_init \<theta> c =
     \<lparr>conv0 = conv (sub \<theta> ''conv0'') 3 c 3 2 1 1 (Some ''rife''),
      conv1 = ResBlock_init (sub \<theta> ''conv1'') c c 2 (Some ''rife''),
      conv2 = ResBlock_init (sub \<theta> ''conv2'') c (2 * c) 2 (Some ''rife''),
      conv3 = ResBlock_init (sub \<theta> ''conv3'') (2 * c) (4 * c) 2 (Some ''rife''),
      conv4 = ResBlock_init (sub \<theta> ''conv4'') (4 * c) (8 * c) 2 (Some ''rife'')\<rparr>"

text \<open>\<open>halve\<close> is the step \<open>F.interpolate(flow, scale_factor=0.5, ...) * 0.5\<close> that the forward
  pass applies to the flow before each of the four levels.\<close>

definition halve :: "prims \<Rightarrow> tensor \<Rightarrow> error + tensor" where
  "halve P flow = bindE (interpolate P flow 1 2) (\<lambda>f. Inr (tmap (lift1 (\<lambda>v. v * 0.5)) f))"

definition ContextNet_forward :: "prims \<Rightarrow> ContextNet \<Rightarrow> tensor \<Rightarrow> tensor \<Rightarrow> error + tensor list" where
  "ContextNet_forward P self x flow =
     bindE (call (ContextNet.conv0 self) x) (\<lambda>x.
     bindE (ResBlock_forward (ContextNet.conv1 self) x) (\<lambda>x.
     bindE (halve P flow) (\<lambda>flow.
     bindE (warp P x flow) (\<lambda>f1.
     bindE (ResBlock_forward (ContextNet.conv2 self) x) (\<lambda>x.
     bindE (halve P flow) (\<lambda>flow.
     bindE (warp P x flow) (\<lambda>f2.
     bindE (ResBlock_forward (conv3 self) x) (\<lambda>x.
     bindE (halve P flow) (\<lambda>flow.
     bindE (warp P x flow) (\<lambda>f3.
     bindE (ResBlock_forward (conv4 self) x) (\<lambda>x.
     bindE (halve P flow) (\<lambda>flow.
     bindE (warp P x flow) (\<lambda>f4.
     Inr [f1, f2, f3, f4])))))))))))))"

section \<open>FusionNet\<close>

record FusionNet =
  conv0 :: "module option"
  down0 :: ResBlock
  down1 :: ResBlock
  down2 :: ResBlock
  down3 :: ResBlock
  up0 :: module
  up1 :: module
  up2 :: module
  up3 :: module
  conv' :: module
  up4 :: module

definition FusionNet_init :: "state_dict \<Rightarrow> nat \<Rightarrow> FusionNet" where
  "FusionNet_init \<theta> c =
     \<lparr>conv0 = conv (sub \<theta> ''conv0'') 8 c 3 2 1 1 (Some ''rife''),
      down0 = ResBlock_init (sub \<theta> ''down0'') c (2 * c) 2 (Some ''rife''),
      down1 = ResBlock_init (sub \<theta> ''down1'') (4 * c) (4 * c) 2 (Some ''rife''),
      down2 = ResBlock_init (sub \<theta> ''down2'') (8 * c) (8 * c) 2 (Some ''rife''),
      down3 = ResBlock_init (sub \<theta> ''down3'') (16 * c) (16 * c) 2 (Some ''rife''),
      up0 = deconv (sub \<theta> ''up0'') (32 * c) (8 * c) 4 2 1,
      up1 = deconv (sub \<theta> ''up1'') (16 * c) (4 * c) 4 2 1,
      up2 = deconv (sub \<theta> ''up2'') (8 * c) (2 * c) 4 2 1,
      up3 = deconv (sub \<theta> ''up3'') (4 * c) c 4 2 1,
      conv' = Conv2d c 16 3 1 1 1 True (\<theta> ''conv''),
      up4 = PixelShuffle 2\<rparr>"

type_synonym fusion_out = "tensor \<times> tensor \<times> tensor \<times> tensor option \<times> tensor option"

definition FusionNet_forward ::
  "prims \<Rightarrow> FusionNet \<Rightarrow> tensor \<Rightarrow> tensor \<Rightarrow> tensor \<Rightarrow> tensor list \<Rightarrow> tensor list \<Rightarrow> tensor option
     \<Rightarrow> error + fusion_out" where
  "FusionNet_forward P self img0 img1 flow c0 c1 flow_gt =
     bindE (warp P img0 flow) (\<lambda>warped_img0.
     bindE (warp P img1 (neg flow)) (\<lambda>warped_img1.
     bindE (case flow_gt of
              None \<Rightarrow> Inr (None, None)
            | Some g \<Rightarrow>
                bindE (warp P img0 (slice g 0 (Some 2))) (\<lambda>w0.
                bindE (warp P img1 (slice g 2 (Some 4))) (\<lambda>w1.
                Inr (Some w0, Some w1)))) (\<lambda>(warped_img0_gt, warped_img1_gt).
     bindE (cat [warped_img0, warped_img1, flow]) (\<lambda>t.
     bindE (call (FusionNet.conv0 self) t) (\<lambda>x.
     bindE (ResBlock_forward (down0 self) x) (\<lambda>s0.
     bindE (getitem c0 0) (\<lambda>c00. bindE (getitem c1 0) (\<lambda>c10. bindE (cat [s0, c00, c10]) (\<lambda>t.
     bindE (ResBlock_forward (down1 self) t) (\<lambda>s1.
     bindE (getitem c0 1) (\<lambda>c01. bindE (getitem c1 1) (\<lambda>c11. bindE (cat [s1, c01, c11]) (\<lambda>t.
     bindE (ResBlock_forward (down2 self) t) (\<lambda>s2.
     bindE (getitem c0 2) (\<lambda>c02. bindE (getitem c1 2) (\<lambda>c12. bindE (cat [s2, c02, c12]) (\<lambda>t.
     bindE (ResBlock_forward (down3 self) t) (\<lambda>s3.
     bindE (getitem c0 3) (\<lambda>c03. bindE (getitem c1 3) (\<lambda>c13. bindE (cat [s3, c03, c13]) (\<lambda>t.
     bindE (forward (up0 self) t) (\<lambda>x.
     bindE (cat [x, s2]) (\<lambda>t.
     bindE (forward (up1 self) t) (\<lambda>x.
     bindE (cat [x, s1]) (\<lambda>t.
     bindE (forward (up2 self) t) (\<lambda>x.
     bindE (cat [x, s0]) (\<lambda>t.
     bindE (forward (up3 self) t) (\<lambda>x.
     bindE (forward (conv' self) x) (\<lambda>t.
     bindE (forward (up4 self) t) (\<lambda>x.
     Inr (x, warped_img0, warped_img1, warped_img0_gt, warped_img1_gt)))))))))))))))))))))))))))))))"

section \<open>RIFE\<close>

record RIFE =
  flownet :: IFNet
  contextnet :: ContextNet
  fusionnet :: FusionNet

definition RIFE_init :: "state_dict \<Rightarrow> RIFE" where
  "RIFE_init \<theta> =
     \<lparr>flownet = IFNet_init (sub \<theta> ''flownet''),
      contextnet = ContextNet_init (sub \<theta> ''contextnet'') 32,
      fusionnet = FusionNet_init (sub \<theta> ''fusionnet'') 32\<rparr>"

text \<open>The result of \<open>RIFE.forward\<close>: the seven values of training mode or the prediction
  alone.\<close>

datatype result =
    Train (train_pred: tensor) (train_mask: tensor) tensor tensor tensor "tensor option" "tensor option"
  | Pred (prediction: tensor)

text \<open>The four keyword arguments \<open>img0\<close>, \<open>img1\<close>, \<open>imgs\<close> and \<open>flow\<close> default to \<open>None\<close>;
  \<open>torch.cat\<close> raises TypeError for an element that is not a tensor.\<close>

definition RIFE_forward ::
  "prims \<Rightarrow> RIFE \<Rightarrow> tensor option \<Rightarrow> tensor option \<Rightarrow> tensor option \<Rightarrow> tensor option \<Rightarrow> bool
     \<Rightarrow> tensor option \<Rightarrow> error + result" where
  "RIFE_forward P self img0 img1 imgs flow training flow_gt =
     bindE (case (img0, img1) of (Some a, Some b) \<Rightarrow> cat [a, b] | _ \<Rightarrow> Inl TypeError) (\<lambda>imgs.
     bindE (IFNet_forward P (flownet self) imgs) (\<lambda>(flow, _).
     let img0 = slice imgs 0 (Some 3); img1 = slice imgs 3 None in
     bindE (ContextNet_forward P (contextnet self) img0 flow) (\<lambda>c0.
     bindE (ContextNet_forward P (contextnet self) img1 (neg flow)) (\<lambda>c1.
     bindE (interpolate P flow 2 1) (\<lambda>f.
     let flow = tmap (lift1 (\<lambda>v. v * 2.0)) f in
     bindE (FusionNet_forward P (fusionnet self) img0 img1 flow c0 c1 flow_gt)
       (\<lambda>(refine_output, warped_img0, warped_img1, warped_img0_gt, warped_img1_gt).
     let res = tmap (lift1 (\<lambda>v. v * 2 - 1)) (tmap sigmoid (slice refine_output 0 (Some 3)));
         mask = tmap sigmoid (slice refine_output 3 (Some 4)) in
     bindE (tmul warped_img0 mask) (\<lambda>a.
     bindE (tmul warped_img1 (tmap (lift1 (\<lambda>v. 1 - v)) mask)) (\<lambda>b.
     bindE (tadd a b) (\<lambda>merged_img.
     bindE (tadd merged_img res) (\<lambda>pred.
     let pred = tmap (clamp 0 1) pred in
     Inr (if training
          then Train pred mask merged_img warped_img0 warped_img1 warped_img0_gt warped_img1_gt
          else Pred pred)))))))))))"

section \<open>Notions used in the statements and proofs\<close>

text \<open>\<open>yields m Q\<close>: the computation \<open>m\<close> raises nothing and its result satisfies \<open>Q\<close>.\<close>

definition yields :: "error + 'a \<Rightarrow> ('a \<Rightarrow> bool) \<Rightarrow> bool" where
  "yields m Q \<longleftrightarrow> (\<exists>y. m = Inr y \<and> Q y)"

text \<open>The size a convolution of kernel 3 and padding 1 (or of kernel 5 and padding 2) with
  stride \<open>s\<close> gives a dimension of size \<open>h\<close>.\<close>

definition out_size :: "nat \<Rightarrow> nat \<Rightarrow> nat" where
  "out_size h s = (h - 1) div s + 1"

text \<open>
  The input of the blocks 1, 2 and 3 of \<open>IFNet.forward\<close>, for the frame pair \<open>x'\<close> and the
  accumulated flow \<open>F\<close>:
  \<^verbatim>\<open>torch.cat((warp(x[:, :3], F), warp(x[:, 3:], -F), F), 1)\<close>.
\<close>

definition stage :: "prims \<Rightarrow> tensor \<Rightarrow> tensor \<Rightarrow> tensor \<Rightarrow> bool" where
  "stage P x' F inp \<longleftrightarrow>
     (\<exists>w0 w1. warp P (slice x' 0 (Some 3)) F = Inr w0 \<and> warp P (slice x' 3 None) (neg F) = Inr w1 \<and>
        cat [w0, w1, F] = Inr inp)"

text \<open>
  The ground-truth branch of \<open>FusionNet.forward\<close>: \<open>g0\<close> and \<open>g1\<close> are both \<open>None\<close> when
  \<open>flow_gt\<close> is, and otherwise \<open>warp(img0, flow_gt[:, :2])\<close> and
  \<open>warp(img1, flow_gt[:, 2:4])\<close>.
\<close>

definition gt_warps ::
  "prims \<Rightarrow> tensor \<Rightarrow> tensor \<Rightarrow> tensor option \<Rightarrow> tensor option \<Rightarrow> tensor option \<Rightarrow> bool" where
  "gt_warps P img0 img1 flow_gt g0 g1 \<longleftrightarrow>
     (case flow_gt of
        None \<Rightarrow> g0 = None \<and> g1 = None
      | Some g \<Rightarrow> (\<exists>u v. g0 = Some u \<and> g1 = Some v \<and>
          warp P img0 (slice g 0 (Some 2)) = Inr u \<and> warp P img1 (slice g 2 (Some 4)) = Inr v))"

text \<open>An optional ground-truth flow that fits images of batch size \<open>n\<close>, height \<open>h\<close> and
  width \<open>w\<close>: absent, or a tensor of that size with the four channels the two slices
  read.\<close>

definition gt_shaped :: "tensor option \<Rightarrow> nat \<Rightarrow> nat \<Rightarrow> nat \<Rightarrow> bool" where
  "gt_shaped flow_gt n h w \<longleftrightarrow>
     (case flow_gt of None \<Rightarrow> True
      | Some g \<Rightarrow> batch g = n \<and> 4 \<le> chans g \<and> height g = h \<and> width g = w)"

text \<open>
  The steps of \<open>FusionNet.forward\<close> from the two warps to the result \<open>x\<close>: the encoder over
  the concatenation of the warped images and the flow, with the context levels joined in,
  the decoder with its skip connections, the last convolution, whose result is \<open>t\<close>, and the
  pixel shuffle.
\<close>

definition fusion_chain ::
  "prims \<Rightarrow> FusionNet \<Rightarrow> tensor \<Rightarrow> tensor \<Rightarrow> tensor \<Rightarrow> tensor list \<Rightarrow> tensor list
     \<Rightarrow> tensor \<Rightarrow> tensor \<Rightarrow> tensor \<Rightarrow> tensor \<Rightarrow> bool" where
  "fusion_chain P self img0 img1 flow c0 c1 w0 w1 t x \<longleftrightarrow>
     (\<exists>t0 x0 s0 c00 c10 t1 s1 c01 c11 t2 s2 c02 c12 t3 s3 c03 c13 t4 u0 t5 u1 t6 u2 t7 u3.
        warp P img0 flow = Inr w0 \<and> warp P img1 (neg flow) = Inr w1 \<and>
        cat [w0, w1, flow] = Inr t0 \<and> call (FusionNet.conv0 self) t0 = Inr x0 \<and>
        ResBlock_forward (down0 self) x0 = Inr s0 \<and>
        getitem c0 0 = Inr c00 \<and> getitem c1 0 = Inr c10 \<and> cat [s0, c00, c10] = Inr t1 \<and>
        ResBlock_forward (down1 self) t1 = Inr s1 \<and>
        getitem c0 1 = Inr c01 \<and> getitem c1 1 = Inr c11 \<and> cat [s1, c01, c11] = Inr t2 \<and>
        ResBlock_forward (down2 self) t2 = Inr s2 \<and>
        getitem c0 2 = Inr c02 \<and> getitem c1 2 = Inr c12 \<and> cat [s2, c02, c12] = Inr t3 \<and>
        ResBlock_forward (down3 self) t3 = Inr s3 \<and>
        getitem c0 3 = Inr c03 \<and> getitem c1 3 = Inr c13 \<and> cat [s3, c03, c13] = Inr t4 \<and>
        forward (up0 self) t4 = Inr u0 \<and> cat [u0, s2] = Inr t5 \<and>
        forward (up1 self) t5 = Inr u1 \<and> cat [u1, s1] = Inr t6 \<and>
        forward (up2 self) t6 = Inr u2 \<and> cat [u2, s0] = Inr t7 \<and>
        forward (up3 self) t7 = Inr u3 \<and>
        forward (conv' self) u3 = Inr t \<and> forward (up4 self) t = Inr x)"

text \<open>An element that is \<open>NaN\<close> or a number of the interval from 0 to 1.\<close>

definition nan_or_unit :: "scalar \<Rightarrow> bool" where
  "nan_or_unit v \<longleftrightarrow> (case v of NaN \<Rightarrow> True | Num r \<Rightarrow> 0 \<le> r \<and> r \<le> 1)"

text \<open>An element that is a number of the interval from 0 to 1; \<open>NaN\<close> is not (every
  comparison with \<open>NaN\<close> is false).\<close>

definition in_unit :: "scalar \<Rightarrow> bool" where
  "in_unit v \<longleftrightarrow> (case v of NaN \<Rightarrow> False | Num r \<Rightarrow> 0 \<le> r \<and> r \<le> 1)"

text \<open>Concrete instances on which the theorems are exercised: a tensor of zeros and a tensor
  of \<open>NaN\<close>s, a state dictionary whose learned functions are constantly zero and one whose
  learned functions are constantly \<open>NaN\<close> (as a convolution with a \<open>NaN\<close> bias is), and
  primitives whose warp returns the image unchanged when the flow matches it.\<close>

definition zeros :: "nat \<Rightarrow> nat \<Rightarrow> nat \<Rightarrow> nat \<Rightarrow> tensor" where
  "zeros n c h w = \<lparr>batch = n, chans = c, height = h, width = w, elems = (\<lambda>_ _ _ _. Num 0)\<rparr>"

definition nans :: "nat \<Rightarrow> nat \<Rightarrow> nat \<Rightarrow> nat \<Rightarrow> tensor" where
  "nans n c h w = \<lparr>batch = n, chans = c, height = h, width = w, elems = (\<lambda>_ _ _ _. NaN)\<rparr>"

definition zero_dict :: state_dict where
  "zero_dict = (\<lambda>_ _ _ _ _ _. Num 0)"

definition nan_dict :: state_dict where
  "nan_dict = (\<lambda>_ _ _ _ _ _. NaN)"

definition plain_prims :: prims where
  "plain_prims =
     \<lparr>warp = (\<lambda>img flow.
         if batch flow = batch img \<and> chans flow = 2 \<and> height flow = height img \<and> width flow = width img
         then Inr img else Inl RuntimeError),
      bilinear = (\<lambda>_ _ _ _ _ _ _. Num 0)\<rparr>"

section \<open>Properties\<close>

declare forward.simps [simp del] cat.simps [simp del]

lemma bindE_Inr [simp]: "bindE (Inr v) f = f v"
  and bindE_Inl [simp]: "bindE (Inl e) f = Inl e"
  by (simp_all add: bindE_def)

lemma yields_Inr: "Q y \<Longrightarrow> yields (Inr y) Q"
  by (simp add: yields_def)

lemma yields_bind: "yields m Q \<Longrightarrow> (\<And>y. Q y \<Longrightarrow> yields (f y) R) \<Longrightarrow> yields (bindE m f) R"
  by (auto simp: yields_def bindE_def)

lemma yieldsE: "yields m Q \<Longrightarrow> (\<And>y. m = Inr y \<Longrightarrow> Q y \<Longrightarrow> thesis) \<Longrightarrow> thesis"
  by (auto simp: yields_def)

lemma out_size_pos [simp]: "0 < out_size h s"
  by (simp add: out_size_def)

lemma out_size_one: "0 < h \<Longrightarrow> out_size h 1 = h" "0 < h \<Longrightarrow> out_size h (Suc 0) = h"
  by (simp_all add: out_size_def)

lemma out_size_even: "0 < a \<Longrightarrow> out_size (2 * a) 2 = a"
  unfolding out_size_def by (cases a) simp_all

lemma conv_k3: "0 < h \<Longrightarrow> 0 < s \<Longrightarrow> conv_fits h 3 s 1 1 \<and> conv_size h 3 s 1 1 = out_size h s"
  unfolding conv_fits_def conv_size_def out_size_def by (cases h) simp_all

lemma conv_k5: "0 < h \<Longrightarrow> 0 < s \<Longrightarrow> conv_fits h 5 s 2 1 \<and> conv_size h 5 s 2 1 = out_size h s"
  unfolding conv_fits_def conv_size_def out_size_def by (cases h) simp_all

lemma conv_k1: "0 < h \<Longrightarrow> conv_fits h 1 1 0 1 \<and> conv_size h 1 1 0 1 = h"
  unfolding conv_fits_def conv_size_def by (cases h) simp_all

lemma forward_Conv2d_k3:
  "shape x = (n, cin, h, w) \<Longrightarrow> 0 < h \<Longrightarrow> 0 < w \<Longrightarrow> 0 < s \<Longrightarrow>
   yields (forward (Conv2d cin cout 3 s 1 1 b f) x) (\<lambda>y. shape y = (n, cout, out_size h s, out_size w s))"
  using conv_k3 [of h s] conv_k3 [of w s] by (auto simp: yields_def shape_def forward.simps)

lemma forward_Conv2d_k1:
  "shape x = (n, cin, h, w) \<Longrightarrow> 0 < h \<Longrightarrow> 0 < w \<Longrightarrow>
   yields (forward (Conv2d cin cout 1 1 0 1 b f) x) (\<lambda>y. shape y = (n, cout, h, w))"
  using conv_k1 [of h] conv_k1 [of w] by (auto simp: yields_def shape_def forward.simps)

lemma forward_PReLU_1:
  "shape x = s \<Longrightarrow> yields (forward (PReLU 1 f) x) (\<lambda>y. shape y = s)"
  by (auto simp: yields_def shape_def forward.simps)

lemma forward_PReLU_c:
  "shape x = (n, c, h, w) \<Longrightarrow> yields (forward (PReLU c f) x) (\<lambda>y. shape y = (n, c, h, w))"
  by (auto simp: yields_def shape_def forward.simps)

lemma forward_PixelShuffle_2:
  "shape x = (n, c4, h, w) \<Longrightarrow> c4 = 4 * c \<Longrightarrow>
   yields (forward (PixelShuffle 2) x) (\<lambda>y. shape y = (n, c, h * 2, w * 2))"
  by (auto simp: yields_def shape_def forward.simps)

lemma call_conv_k3:
  "mode = Some ''rife'' \<or> mode = Some ''ifnet'' \<Longrightarrow> shape x = (n, cin, h, w) \<Longrightarrow>
   0 < h \<Longrightarrow> 0 < w \<Longrightarrow> 0 < s \<Longrightarrow>
   yields (call (conv \<theta> cin cout 3 s 1 1 mode) x) (\<lambda>y. shape y = (n, cout, out_size h s, out_size w s))"
  using conv_k3 [of h s] conv_k3 [of w s]
  by (auto simp: yields_def shape_def conv_def call_def bindE_def forward.simps)

lemma call_conv_k5:
  "mode = Some ''rife'' \<or> mode = Some ''ifnet'' \<Longrightarrow> shape x = (n, cin, h, w) \<Longrightarrow>
   0 < h \<Longrightarrow> 0 < w \<Longrightarrow> 0 < s \<Longrightarrow>
   yields (call (conv \<theta> cin cout 5 s 2 1 mode) x) (\<lambda>y. shape y = (n, cout, out_size h s, out_size w s))"
  using conv_k5 [of h s] conv_k5 [of w s]
  by (auto simp: yields_def shape_def conv_def call_def bindE_def forward.simps)

lemma call_conv_woact_k3:
  "mode = Some ''rife'' \<or> mode = Some ''ifnet'' \<Longrightarrow> shape x = (n, cin, h, w) \<Longrightarrow>
   0 < h \<Longrightarrow> 0 < w \<Longrightarrow> 0 < s \<Longrightarrow>
   yields (call (conv_woact \<theta> cin cout 3 s 1 1 mode) x)
     (\<lambda>y. shape y = (n, cout, out_size h s, out_size w s))"
  using conv_k3 [of h s] conv_k3 [of w s]
  by (auto simp: yields_def shape_def conv_woact_def call_def bindE_def forward.simps)

lemma forward_deconv_shape:
  "shape x = (n, cin, h, w) \<Longrightarrow> 0 < h \<Longrightarrow> 0 < w \<Longrightarrow>
   yields (forward (deconv \<theta> cin cout k s p) x) (\<lambda>y. shape y = (n, cout, 2 * h, 2 * w))"
  by (cases h; cases w) (auto simp: yields_def shape_def deconv_def bindE_def deconv_size_def forward.simps)

lemma bdim_same [simp]: "bdim a a = Some a"
  and bdim_one [simp]: "bdim a 1 = Some a" "bdim a (Suc 0) = Some a"
  by (simp_all add: bdim_def)

lemma binop_same:
  "batch y = batch x \<Longrightarrow> chans y = chans x \<Longrightarrow> height y = height x \<Longrightarrow> width y = width x \<Longrightarrow>
   binop f x y = Inr \<lparr>batch = batch x, chans = chans x, height = height x, width = width x,
     elems = (\<lambda>n c i j.
        f (elems x (bidx (batch x) n) (bidx (chans x) c) (bidx (height x) i) (bidx (width x) j))
          (elems y (bidx (batch x) n) (bidx (chans x) c) (bidx (height x) i) (bidx (width x) j)))\<rparr>"
  by (simp add: binop_def)

lemma binop_gate:
  "batch g = batch x \<Longrightarrow> chans g = chans x \<Longrightarrow> height g = 1 \<Longrightarrow> width g = 1 \<Longrightarrow>
   binop f x g = Inr \<lparr>batch = batch x, chans = chans x, height = height x, width = width x,
     elems = (\<lambda>n c i j.
        f (elems x (bidx (batch x) n) (bidx (chans x) c) (bidx (height x) i) (bidx (width x) j))
          (elems g (bidx (batch x) n) (bidx (chans x) c) 0 0))\<rparr>"
  by (simp add: binop_def bidx_def)

lemma tmul_gate_shape:
  "shape x = (n, c, h, w) \<Longrightarrow> shape g = (n, c, 1, 1) \<Longrightarrow> yields (tmul x g) (\<lambda>y. shape y = (n, c, h, w))"
  by (simp add: yields_def tmul_def binop_gate shape_def)

lemma tadd_same_shape:
  "shape x = s \<Longrightarrow> shape y = s \<Longrightarrow> yields (tadd x y) (\<lambda>z. shape z = s)"
  by (cases s) (simp add: yields_def tadd_def binop_same shape_def)

lemma shape_tmap [simp]: "shape (tmap f x) = shape x"
  by (simp add: shape_def tmap_def)

lemma shape_neg [simp]: "shape (neg x) = shape x"
  by (simp add: neg_def)

lemma shape_mean: "shape x = (n, c, h, w) \<Longrightarrow> shape (mean2 (mean3 x)) = (n, c, 1, 1)"
  by (simp add: shape_def mean2_def mean3_def)

lemma ResBlock_forward_shape:
  assumes mode: "mode = Some ''rife'' \<or> mode = Some ''ifnet''"
    and x: "shape x = (n, cin, h, w)" and pos: "0 < h" "0 < w" "0 < stride"
  shows "yields (ResBlock_forward (ResBlock_init \<theta> cin cout stride mode) x)
           (\<lambda>y. shape y = (n, cout, out_size h stride, out_size w stride))"
proof -
  let ?rb = "ResBlock_init \<theta> cin cout stride mode"
  let ?S = "(n, cout, out_size h stride, out_size w stride)"
  have short: "yields (forward (ResBlock.conv0 ?rb) x) (\<lambda>y. shape y = ?S)"
  proof (cases "cin = cout \<and> stride = 1")
    case True
    then have "ResBlock.conv0 ?rb = Identity" by (simp add: ResBlock_init_def)
    then show ?thesis using x True pos by (simp add: yields_def forward.simps out_size_one)
  next
    case False
    then have "ResBlock.conv0 ?rb = Conv2d cin cout 3 stride 1 1 False (\<theta> ''conv0'')"
      by (auto simp add: ResBlock_init_def)
    then show ?thesis using forward_Conv2d_k3 [OF x pos] by simp
  qed
  have "\<exists>c1. getattr (ResBlock.conv1 ?rb) = Inr c1 \<and> yields (call c1 x) (\<lambda>y. shape y = ?S)"
  proof (cases "mode = Some ''rife''")
    case True
    then have "getattr (ResBlock.conv1 ?rb) = Inr (conv (sub \<theta> ''conv1'') cin cout 3 stride 1 1 mode)"
      by (simp add: ResBlock_init_def getattr_def)
    then show ?thesis using call_conv_k3 [OF mode x pos, of "sub \<theta> ''conv1''" cout] by simp
  next
    case False
    with mode have "getattr (ResBlock.conv1 ?rb) = Inr (conv (sub \<theta> ''conv1'') cin cout 5 stride 2 1 mode)"
      by (simp add: ResBlock_init_def getattr_def)
    then show ?thesis using call_conv_k5 [OF mode x pos, of "sub \<theta> ''conv1''" cout] by simp
  qed
  then obtain c1 where c1: "getattr (ResBlock.conv1 ?rb) = Inr c1"
    and main: "yields (call c1 x) (\<lambda>y. shape y = ?S)" by blast
  have conv2: "yields (call (ResBlock.conv2 ?rb) y) (\<lambda>z. shape z = ?S)" if "shape y = ?S" for y
    using call_conv_woact_k3 [OF mode that, of 1 "sub \<theta> ''conv2''"]
    by (simp add: ResBlock_init_def out_size_one)
  have f: "fc1 ?rb = Conv2d cout 16 1 1 0 1 False (\<theta> ''fc1'')" "relu1 ?rb = PReLU 1 (\<theta> ''relu1'')"
      "fc2 ?rb = Conv2d 16 cout 1 1 0 1 False (\<theta> ''fc2'')"
    by (simp_all add: ResBlock_init_def)
  have relu2: "yields (forward (relu2 ?rb) s) (\<lambda>z. shape z = ?S)" if "shape s = ?S" for s
    using that by (simp add: ResBlock_init_def forward_PReLU_c)
  show ?thesis
    unfolding ResBlock_forward_def Let_def
    apply (rule yields_bind [OF short])
    apply (simp only: c1 bindE_Inr)
    apply (rule yields_bind [OF main])
    apply (rule yields_bind, erule conv2)
    apply (simp only: f)
    apply (rule yields_bind, rule forward_Conv2d_k1, erule shape_mean, simp, simp)
    apply (rule yields_bind, erule forward_PReLU_1)
    apply (rule yields_bind, erule forward_Conv2d_k1, simp, simp)
    apply (rule yields_bind, erule tmul_gate_shape, simp)
    apply (rule yields_bind, erule tadd_same_shape, assumption)
    apply (erule relu2)
    done
qed

lemma interpolate_down:
  "shape x = (n, c, h, w) \<Longrightarrow> h = k * h' \<Longrightarrow> w = k * w' \<Longrightarrow> 0 < k \<Longrightarrow> 0 < h' \<Longrightarrow> 0 < w' \<Longrightarrow>
   yields (interpolate P x 1 k) (\<lambda>y. shape y = (n, c, h', w'))"
  by (simp add: yields_def interpolate_def shape_def)

lemma interpolate_up:
  "shape x = (n, c, h, w) \<Longrightarrow> 0 < k \<Longrightarrow> 0 < h \<Longrightarrow> 0 < w \<Longrightarrow> h' = h * k \<Longrightarrow> w' = w * k \<Longrightarrow>
   yields (interpolate P x k 1) (\<lambda>y. shape y = (n, c, h', w'))"
  by (simp add: yields_def interpolate_def shape_def)

lemma warp_shape:
  "warp_contract P \<Longrightarrow> shape img = (n, c, h, w) \<Longrightarrow> shape fl = (n, 2, h, w) \<Longrightarrow>
   yields (warp P img fl) (\<lambda>y. shape y = (n, c, h, w))"
  unfolding warp_contract_def yields_def shape_def by fastforce

lemma cat2_shape:
  "shape a = (n, c1, h, w) \<Longrightarrow> shape b = (n, c2, h, w) \<Longrightarrow> c = c1 + c2 \<Longrightarrow>
   yields (cat [a, b]) (\<lambda>y. shape y = (n, c, h, w))"
  by (simp add: yields_def shape_def cat.simps)

lemma cat3_shape:
  "shape a = (n, c1, h, w) \<Longrightarrow> shape b = (n, c2, h, w) \<Longrightarrow> shape d = (n, c3, h, w) \<Longrightarrow>
   c = c1 + c2 + c3 \<Longrightarrow> yields (cat [a, b, d]) (\<lambda>y. shape y = (n, c, h, w))"
  by (simp add: yields_def shape_def cat.simps)

lemma slice_shape:
  "shape x = (n, c, h, w) \<Longrightarrow> lo \<le> hi \<Longrightarrow> hi \<le> c \<Longrightarrow> c' = hi - lo \<Longrightarrow>
   shape (slice x lo (Some hi)) = (n, c', h, w)"
  by (simp add: slice_def shape_def Let_def min_def)

lemma slice_open_shape:
  "shape x = (n, c, h, w) \<Longrightarrow> lo \<le> c \<Longrightarrow> c' = c - lo \<Longrightarrow> shape (slice x lo None) = (n, c', h, w)"
  by (simp add: slice_def shape_def Let_def min_def)

lemma IFBlock_forward_shape:
  assumes sc: "0 < sc" and x: "shape x = (n, cin, 2 * sc * a, 2 * sc * b)" and pos: "0 < a" "0 < b"
  shows "yields (IFBlock_forward P (IFBlock_init \<theta> cin sc c) x)
           (\<lambda>y. shape y = (n, 2, 2 * sc * a, 2 * sc * b))"
proof -
  let ?ib = "IFBlock_init \<theta> cin sc c"
  have f: "scale ?ib = sc" "IFBlock.conv0 ?ib = conv (sub \<theta> ''conv0'') cin c 5 2 2 1 (Some ''ifnet'')"
    "res0 ?ib = ResBlock_init (sub \<theta> ''res0'') c c 1 (Some ''ifnet'')"
    "res1 ?ib = ResBlock_init (sub \<theta> ''res1'') c c 1 (Some ''ifnet'')"
    "res2 ?ib = ResBlock_init (sub \<theta> ''res2'') c c 1 (Some ''ifnet'')"
    "res3 ?ib = ResBlock_init (sub \<theta> ''res3'') c c 1 (Some ''ifnet'')"
    "res4 ?ib = ResBlock_init (sub \<theta> ''res4'') c c 1 (Some ''ifnet'')"
    "res5 ?ib = ResBlock_init (sub \<theta> ''res5'') c c 1 (Some ''ifnet'')"
    "IFBlock.conv1 ?ib = Conv2d c 8 3 1 1 1 True (\<theta> ''conv1'')" "up ?ib = PixelShuffle 2"
    by (simp_all add: IFBlock_init_def)
  have down: "yields (if sc \<noteq> 1 then interpolate P x 1 sc else Inr x)
                (\<lambda>y. shape y = (n, cin, 2 * a, 2 * b))"
  proof (cases "sc = 1")
    case True
    with x show ?thesis by (simp add: yields_def)
  next
    case False
    have "yields (interpolate P x 1 sc) (\<lambda>y. shape y = (n, cin, 2 * a, 2 * b))"
      using x sc pos by (intro interpolate_down [OF x]) simp_all
    with False show ?thesis by simp
  qed
  have res: "yields (ResBlock_forward (ResBlock_init \<theta>' c c 1 (Some ''ifnet'')) y)
                (\<lambda>z. shape z = (n, c, a, b))" if "shape y = (n, c, a, b)" for y \<theta>'
    using ResBlock_forward_shape [OF _ that pos, of "Some ''ifnet''" 1 \<theta>' c] pos
    by (simp add: out_size_one)
  have conv0: "yields (call (conv (sub \<theta> ''conv0'') cin c 5 2 2 1 (Some ''ifnet'')) y)
                (\<lambda>z. shape z = (n, c, a, b))" if "shape y = (n, cin, 2 * a, 2 * b)" for y
    using call_conv_k5 [OF _ that, of "Some ''ifnet''" 2 "sub \<theta> ''conv0''" c] pos
    by (simp add: out_size_even)
  have conv1: "yields (forward (Conv2d c 8 3 1 1 1 True (\<theta> ''conv1'')) y)
                (\<lambda>z. shape z = (n, 8, a, b))" if "shape y = (n, c, a, b)" for y
    using forward_Conv2d_k3 [OF that pos, of 1 8 True "\<theta> ''conv1''"] pos
    by (simp add: out_size_one)
  have up: "yields (if sc \<noteq> 1 then interpolate P y sc 1 else Inr y)
                (\<lambda>y. shape y = (n, 2, 2 * sc * a, 2 * sc * b))" if "shape y = (n, 2, a * 2, b * 2)" for y
  proof (cases "sc = 1")
    case True
    with that show ?thesis by (simp add: yields_def mult.commute)
  next
    case False
    have "yields (interpolate P y sc 1) (\<lambda>y. shape y = (n, 2, 2 * sc * a, 2 * sc * b))"
      using sc pos by (intro interpolate_up [OF that]) simp_all
    with False show ?thesis by simp
  qed
  show ?thesis
    unfolding IFBlock_forward_def f
    apply (rule yields_bind [OF down])
    apply (rule yields_bind, erule conv0)
    apply (rule yields_bind, erule res)+
    apply (rule yields_bind, erule conv1)
    apply (rule yields_bind, erule forward_PixelShuffle_2, simp)
    apply (erule up)
    done
qed

lemma bidx_in_range: "i < d \<Longrightarrow> bidx d i = i"
  by (auto simp: bidx_def)

lemma elems_binop_same:
  assumes "binop f a b = Inr s" "shape b = shape a"
    and "n < batch a" "c < chans a" "i < height a" "j < width a"
  shows "elems s n c i j = f (elems a n c i j) (elems b n c i j)"
proof -
  from assms(2) have "batch b = batch a" "chans b = chans a" "height b = height a" "width b = width a"
    by (simp_all add: shape_def)
  from binop_same [OF this, of f] assms(1,3-) show ?thesis
    by (auto simp: bidx_in_range)
qed

lemma stage_input:
  assumes P: "warp_contract P" and x: "shape x' = (n, 6, h, w)" and F: "shape F = (n, 2, h, w)"
  shows "yields (bindE (warp P (slice x' 0 (Some 3)) F) (\<lambda>w0.
            bindE (warp P (slice x' 3 None) (neg F)) (\<lambda>w1. cat [w0, w1, F])))
          (\<lambda>y. shape y = (n, 8, h, w))"
  apply (rule yields_bind, rule warp_shape [OF P slice_shape [OF x] F], simp, simp, simp)
  apply (rule yields_bind, rule warp_shape [OF P slice_open_shape [OF x]], simp, simp, simp add: F)
  apply (erule cat3_shape, assumption, rule F, simp)
  done

lemma stageI:
  assumes P: "warp_contract P" and x: "shape x' = (n, 6, h, w)" and F: "shape F = (n, 2, h, w)"
  obtains inp where "stage P x' F inp" "shape inp = (n, 8, h, w)"
proof -
  from stage_input [OF P x F] obtain inp where
    i: "bindE (warp P (slice x' 0 (Some 3)) F) (\<lambda>w0.
            bindE (warp P (slice x' 3 None) (neg F)) (\<lambda>w1. cat [w0, w1, F])) = Inr inp"
    and s: "shape inp = (n, 8, h, w)" by (rule yieldsE)
  from i have "stage P x' F inp"
    unfolding stage_def by (auto simp: bindE_def split: sum.splits)
  with s that show thesis by blast
qed

lemma IFNet_forward_trace:
  assumes P: "warp_contract P" and x: "shape x = (n, 6, 32 * a, 32 * b)" and pos: "0 < a" "0 < b"
  shows "\<exists>x' in1 in2 in3 flow0 flow1 flow2 flow3 F2 F3 F4.
           interpolate P x 1 2 = Inr x' \<and>
           IFBlock_forward P (block0 (IFNet_init \<theta>)) x' = Inr flow0 \<and>
           stage P x' flow0 in1 \<and>
           IFBlock_forward P (block1 (IFNet_init \<theta>)) in1 = Inr flow1 \<and>
           tadd flow0 flow1 = Inr F2 \<and>
           stage P x' F2 in2 \<and>
           IFBlock_forward P (block2 (IFNet_init \<theta>)) in2 = Inr flow2 \<and>
           tadd F2 flow2 = Inr F3 \<and>
           stage P x' F3 in3 \<and>
           IFBlock_forward P (block3 (IFNet_init \<theta>)) in3 = Inr flow3 \<and>
           tadd F3 flow3 = Inr F4 \<and>
           IFNet_forward P (IFNet_init \<theta>) x = Inr (F4, [flow0, F2, F3, F4]) \<and>
           shape x' = (n, 6, 16 * a, 16 * b) \<and>
           shape flow0 = (n, 2, 16 * a, 16 * b) \<and> shape flow1 = (n, 2, 16 * a, 16 * b) \<and>
           shape flow2 = (n, 2, 16 * a, 16 * b) \<and> shape flow3 = (n, 2, 16 * a, 16 * b) \<and>
           shape F2 = (n, 2, 16 * a, 16 * b) \<and> shape F3 = (n, 2, 16 * a, 16 * b) \<and>
           shape F4 = (n, 2, 16 * a, 16 * b)"
proof -
  let ?net = "IFNet_init \<theta>"
  let ?S = "(n, 2::nat, 16 * a, 16 * b)"
  have f: "block0 ?net = IFBlock_init (sub \<theta> ''block0'') 6 8 192"
    "block1 ?net = IFBlock_init (sub \<theta> ''block1'') 8 4 128"
    "block2 ?net = IFBlock_init (sub \<theta> ''block2'') 8 2 96"
    "block3 ?net = IFBlock_init (sub \<theta> ''block3'') 8 1 48"
    by (simp_all add: IFNet_init_def)
  have "yields (interpolate P x 1 2) (\<lambda>y. shape y = (n, 6, 16 * a, 16 * b))"
    using pos by (intro interpolate_down [OF x]) simp_all
  then obtain x' where x': "interpolate P x 1 2 = Inr x'" and sx': "shape x' = (n, 6, 16 * a, 16 * b)"
    by (rule yieldsE)
  have "yields (IFBlock_forward P (block0 ?net) x') (\<lambda>y. shape y = ?S)"
    unfolding f using IFBlock_forward_shape [of 8 x' n 6 a b P "sub \<theta> ''block0''" 192] sx' pos by simp
  then obtain flow0 where b0: "IFBlock_forward P (block0 ?net) x' = Inr flow0" and s0: "shape flow0 = ?S"
    by (rule yieldsE)
  from stageI [OF P sx' s0]
  obtain in1 where i1: "stage P x' flow0 in1" and si1: "shape in1 = (n, 8, 16 * a, 16 * b)" .
  have "yields (IFBlock_forward P (block1 ?net) in1) (\<lambda>y. shape y = ?S)"
    unfolding f using IFBlock_forward_shape [of 4 in1 n 8 "2 * a" "2 * b" P "sub \<theta> ''block1''" 128] si1 pos
    by simp
  then obtain flow1 where b1: "IFBlock_forward P (block1 ?net) in1 = Inr flow1" and s1: "shape flow1 = ?S"
    by (rule yieldsE)
  from tadd_same_shape [OF s0 s1]
  obtain F2 where F2: "tadd flow0 flow1 = Inr F2" and sF2: "shape F2 = ?S" by (rule yieldsE)
  from stageI [OF P sx' sF2]
  obtain in2 where i2: "stage P x' F2 in2" and si2: "shape in2 = (n, 8, 16 * a, 16 * b)" .
  have "yields (IFBlock_forward P (block2 ?net) in2) (\<lambda>y. shape y = ?S)"
    unfolding f using IFBlock_forward_shape [of 2 in2 n 8 "4 * a" "4 * b" P "sub \<theta> ''block2''" 96] si2 pos
    by simp
  then obtain flow2 where b2: "IFBlock_forward P (block2 ?net) in2 = Inr flow2" and s2: "shape flow2 = ?S"
    by (rule yieldsE)
  from tadd_same_shape [OF sF2 s2]
  obtain F3 where F3: "tadd F2 flow2 = Inr F3" and sF3: "shape F3 = ?S" by (rule yieldsE)
  from stageI [OF P sx' sF3]
  obtain in3 where i3: "stage P x' F3 in3" and si3: "shape in3 = (n, 8, 16 * a, 16 * b)" .
  have "yields (IFBlock_forward P (block3 ?net) in3) (\<lambda>y. shape y = ?S)"
    unfolding f using IFBlock_forward_shape [of 1 in3 n 8 "8 * a" "8 * b" P "sub \<theta> ''block3''" 48] si3 pos
    by simp
  then obtain flow3 where b3: "IFBlock_forward P (block3 ?net) in3 = Inr flow3" and s3: "shape flow3 = ?S"
    by (rule yieldsE)
  from tadd_same_shape [OF sF3 s3]
  obtain F4 where F4: "tadd F3 flow3 = Inr F4" and sF4: "shape F4 = ?S" by (rule yieldsE)
  from i1 obtain w01 w11 where w1: "warp P (slice x' 0 (Some 3)) flow0 = Inr w01"
      "warp P (slice x' 3 None) (neg flow0) = Inr w11" "cat [w01, w11, flow0] = Inr in1"
    unfolding stage_def by blast
  from i2 obtain w02 w12 where w2: "warp P (slice x' 0 (Some 3)) F2 = Inr w02"
      "warp P (slice x' 3 None) (neg F2) = Inr w12" "cat [w02, w12, F2] = Inr in2"
    unfolding stage_def by blast
  from i3 obtain w03 w13 where w3: "warp P (slice x' 0 (Some 3)) F3 = Inr w03"
      "warp P (slice x' 3 None) (neg F3) = Inr w13" "cat [w03, w13, F3] = Inr in3"
    unfolding stage_def by blast
  have fw: "IFNet_forward P ?net x = Inr (F4, [flow0, F2, F3, F4])"
    unfolding IFNet_forward_def Let_def
    by (simp only: x' b0 w1 b1 F2 w2 b2 F3 w3 b3 F4 bindE_Inr)
  from x' b0 i1 b1 F2 i2 b2 F3 i3 b3 F4 fw sx' s0 s1 s2 s3 sF2 sF3 sF4 show ?thesis by blast
qed

lemma out_size_half: "0 < a \<Longrightarrow> h = 2 * a \<Longrightarrow> out_size h 2 = a"
  by (simp add: out_size_even)

lemma halve_shape:
  "shape g = (n, c, h, w) \<Longrightarrow> h = 2 * h' \<Longrightarrow> w = 2 * w' \<Longrightarrow> 0 < h' \<Longrightarrow> 0 < w' \<Longrightarrow>
   yields (halve P g) (\<lambda>y. shape y = (n, c, h', w'))"
  unfolding halve_def
  by (rule yields_bind, erule interpolate_down) (simp_all add: yields_def)

lemma ResBlock_down:
  assumes "shape x = (n, cin, h, w)" "h = 2 * h'" "w = 2 * w'" "0 < h'" "0 < w'"
  shows "yields (ResBlock_forward (ResBlock_init \<theta> cin cout 2 (Some ''rife'')) x)
           (\<lambda>y. shape y = (n, cout, h', w'))"
  using ResBlock_forward_shape [OF _ assms(1), of "Some ''rife''" 2 \<theta> cout] assms(2-)
  by (simp add: out_size_even)

lemma call_conv_down:
  assumes "shape x = (n, cin, h, w)" "h = 2 * h'" "w = 2 * w'" "0 < h'" "0 < w'"
  shows "yields (call (conv \<theta> cin cout 3 2 1 1 (Some ''rife'')) x) (\<lambda>y. shape y = (n, cout, h', w'))"
  using call_conv_k3 [OF _ assms(1), of "Some ''rife''" 2 \<theta> cout] assms(2-)
  by (simp add: out_size_even)

lemma halve_shape_div:
  "shape g = (n, c, h, w) \<Longrightarrow> h div 2 = h' \<Longrightarrow> w div 2 = w' \<Longrightarrow> 0 < h' \<Longrightarrow> 0 < w' \<Longrightarrow>
   yields (halve P g) (\<lambda>y. shape y = (n, c, h', w'))"
  unfolding halve_def
  by (rule yields_bind [where Q = "\<lambda>y. shape y = (n, c, h', w')"])
    (auto simp: yields_def interpolate_def shape_def tmap_def)

lemma out_size_twice_pos: "out_size (out_size h 2) 2 = 8 * a \<Longrightarrow> 0 < a \<Longrightarrow> 0 < h"
  by (cases h) (auto simp: out_size_def)

lemma sizes_32:
  "0 < a \<Longrightarrow> out_size (out_size (32 * a) 2) 2 = 8 * a" "(16 * a) div 2 = 8 * a"
  by (simp_all add: out_size_half)

lemma ContextNet_forward_trace:
  assumes P: "warp_contract P" and x: "shape x = (n, 3, H, W)"
    and fl: "shape flow = (n, 2, h2, w2)"
    and eh: "out_size (out_size H 2) 2 = 8 * a" "h2 div 2 = 8 * a"
    and ew: "out_size (out_size W 2) 2 = 8 * b" "w2 div 2 = 8 * b"
    and pos: "0 < a" "0 < b"
  shows "\<exists>x0 x1 x2 x3 x4 g1 g2 g3 g4 f1 f2 f3 f4.
           call (ContextNet.conv0 (ContextNet_init \<theta> c)) x = Inr x0 \<and>
           ResBlock_forward (ContextNet.conv1 (ContextNet_init \<theta> c)) x0 = Inr x1 \<and>
           halve P flow = Inr g1 \<and> warp P x1 g1 = Inr f1 \<and>
           ResBlock_forward (ContextNet.conv2 (ContextNet_init \<theta> c)) x1 = Inr x2 \<and>
           halve P g1 = Inr g2 \<and> warp P x2 g2 = Inr f2 \<and>
           ResBlock_forward (conv3 (ContextNet_init \<theta> c)) x2 = Inr x3 \<and>
           halve P g2 = Inr g3 \<and> warp P x3 g3 = Inr f3 \<and>
           ResBlock_forward (conv4 (ContextNet_init \<theta> c)) x3 = Inr x4 \<and>
           halve P g3 = Inr g4 \<and> warp P x4 g4 = Inr f4 \<and>
           ContextNet_forward P (ContextNet_init \<theta> c) x flow = Inr [f1, f2, f3, f4] \<and>
           shape f1 = (n, c, 8 * a, 8 * b) \<and> shape f2 = (n, 2 * c, 4 * a, 4 * b) \<and>
           shape f3 = (n, 4 * c, 2 * a, 2 * b) \<and> shape f4 = (n, 8 * c, a, b) \<and>
           shape g1 = (n, 2, 8 * a, 8 * b) \<and> shape g2 = (n, 2, 4 * a, 4 * b) \<and>
           shape g3 = (n, 2, 2 * a, 2 * b) \<and> shape g4 = (n, 2, a, b)"
proof -
  let ?net = "ContextNet_init \<theta> c"
  have f: "ContextNet.conv0 ?net = conv (sub \<theta> ''conv0'') 3 c 3 2 1 1 (Some ''rife'')"
    "ContextNet.conv1 ?net = ResBlock_init (sub \<theta> ''conv1'') c c 2 (Some ''rife'')"
    "ContextNet.conv2 ?net = ResBlock_init (sub \<theta> ''conv2'') c (2 * c) 2 (Some ''rife'')"
    "conv3 ?net = ResBlock_init (sub \<theta> ''conv3'') (2 * c) (4 * c) 2 (Some ''rife'')"
    "conv4 ?net = ResBlock_init (sub \<theta> ''conv4'') (4 * c) (8 * c) 2 (Some ''rife'')"
    by (simp_all add: ContextNet_init_def)
  have HW: "0 < H" "0 < W"
    using eh(1) ew(1) pos by (auto dest: out_size_twice_pos)
  have "yields (call (ContextNet.conv0 ?net) x) (\<lambda>y. shape y = (n, c, out_size H 2, out_size W 2))"
    unfolding f using HW by (intro call_conv_k3 [OF _ x]) simp_all
  then obtain x0 where x0: "call (ContextNet.conv0 ?net) x = Inr x0"
    and sx0: "shape x0 = (n, c, out_size H 2, out_size W 2)" by (rule yieldsE)
  have "yields (ResBlock_forward (ContextNet.conv1 ?net) x0) (\<lambda>y. shape y = (n, c, 8 * a, 8 * b))"
    unfolding f using ResBlock_forward_shape [OF _ sx0, of "Some ''rife''" 2 "sub \<theta> ''conv1''" c] eh(1) ew(1)
    by simp
  then obtain x1 where x1: "ResBlock_forward (ContextNet.conv1 ?net) x0 = Inr x1"
    and sx1: "shape x1 = (n, c, 8 * a, 8 * b)" by (rule yieldsE)
  have "yields (halve P flow) (\<lambda>y. shape y = (n, 2, 8 * a, 8 * b))"
    using pos eh(2) ew(2) by (intro halve_shape_div [OF fl]) simp_all
  then obtain g1 where g1: "halve P flow = Inr g1" and sg1: "shape g1 = (n, 2, 8 * a, 8 * b)"
    by (rule yieldsE)
  from warp_shape [OF P sx1 sg1] obtain f1 where f1: "warp P x1 g1 = Inr f1"
    and sf1: "shape f1 = (n, c, 8 * a, 8 * b)" by (rule yieldsE)
  have "yields (ResBlock_forward (ContextNet.conv2 ?net) x1) (\<lambda>y. shape y = (n, 2 * c, 4 * a, 4 * b))"
    unfolding f using pos by (intro ResBlock_down [OF sx1]) simp_all
  then obtain x2 where x2: "ResBlock_forward (ContextNet.conv2 ?net) x1 = Inr x2"
    and sx2: "shape x2 = (n, 2 * c, 4 * a, 4 * b)" by (rule yieldsE)
  have "yields (halve P g1) (\<lambda>y. shape y = (n, 2, 4 * a, 4 * b))"
    using pos by (intro halve_shape [OF sg1]) simp_all
  then obtain g2 where g2: "halve P g1 = Inr g2" and sg2: "shape g2 = (n, 2, 4 * a, 4 * b)"
    by (rule yieldsE)
  from warp_shape [OF P sx2 sg2] obtain f2 where f2: "warp P x2 g2 = Inr f2"
    and sf2: "shape f2 = (n, 2 * c, 4 * a, 4 * b)" by (rule yieldsE)
  have "yields (ResBlock_forward (conv3 ?net) x2) (\<lambda>y. shape y = (n, 4 * c, 2 * a, 2 * b))"
    unfolding f using pos by (intro ResBlock_down [OF sx2]) simp_all
  then obtain x3 where x3: "ResBlock_forward (conv3 ?net) x2 = Inr x3"
    and sx3: "shape x3 = (n, 4 * c, 2 * a, 2 * b)" by (rule yieldsE)
  have "yields (halve P g2) (\<lambda>y. shape y = (n, 2, 2 * a, 2 * b))"
    using pos by (intro halve_shape [OF sg2]) simp_all
  then obtain g3 where g3: "halve P g2 = Inr g3" and sg3: "shape g3 = (n, 2, 2 * a, 2 * b)"
    by (rule yieldsE)
  from warp_shape [OF P sx3 sg3] obtain f3 where f3: "warp P x3 g3 = Inr f3"
    and sf3: "shape f3 = (n, 4 * c, 2 * a, 2 * b)" by (rule yieldsE)
  have "yields (ResBlock_forward (conv4 ?net) x3) (\<lambda>y. shape y = (n, 8 * c, a, b))"
    unfolding f using pos by (intro ResBlock_down [OF sx3]) simp_all
  then obtain x4 where x4: "ResBlock_forward (conv4 ?net) x3 = Inr x4"
    and sx4: "shape x4 = (n, 8 * c, a, b)" by (rule yieldsE)
  have "yields (halve P g3) (\<lambda>y. shape y = (n, 2, a, b))"
    using pos by (intro halve_shape [OF sg3]) simp_all
  then obtain g4 where g4: "halve P g3 = Inr g4" and sg4: "shape g4 = (n, 2, a, b)"
    by (rule yieldsE)
  from warp_shape [OF P sx4 sg4] obtain f4 where f4: "warp P x4 g4 = Inr f4"
    and sf4: "shape f4 = (n, 8 * c, a, b)" by (rule yieldsE)
  have fw: "ContextNet_forward P ?net x flow = Inr [f1, f2, f3, f4]"
    unfolding ContextNet_forward_def
    by (simp only: x0 x1 g1 f1 x2 g2 f2 x3 g3 f3 x4 g4 f4 bindE_Inr)
  from x0 x1 g1 f1 x2 g2 f2 x3 g3 f3 x4 g4 f4 fw sf1 sf2 sf3 sf4 sg1 sg2 sg3 sg4
  show ?thesis by blast
qed


lemma getitem4:
  "getitem [a, b, c, d] 0 = Inr a" "getitem [a, b, c, d] 1 = Inr b"
  "getitem [a, b, c, d] 2 = Inr c" "getitem [a, b, c, d] 3 = Inr d"
  by (simp_all add: getitem_def)

lemma gt_case:
  assumes P: "warp_contract P" and i0: "shape img0 = (n, 3, h, w)" and i1: "shape img1 = (n, 3, h, w)"
    and gt: "gt_shaped flow_gt n h w"
  shows "\<exists>g0 g1. (case flow_gt of
              None \<Rightarrow> Inr (None, None)
            | Some g \<Rightarrow>
                bindE (warp P img0 (slice g 0 (Some 2))) (\<lambda>w0.
                bindE (warp P img1 (slice g 2 (Some 4))) (\<lambda>w1.
                Inr (Some w0, Some w1)))) = Inr (g0, g1) \<and> gt_warps P img0 img1 flow_gt g0 g1"
proof (cases flow_gt)
  case None
  then show ?thesis by (simp add: gt_warps_def)
next
  case (Some g)
  with gt have g: "shape g = (n, chans g, h, w)" "4 \<le> chans g"
    by (simp_all add: gt_shaped_def shape_def)
  have "shape (slice g 0 (Some 2)) = (n, 2, h, w)" "shape (slice g 2 (Some 4)) = (n, 2, h, w)"
    using g by (simp_all add: slice_shape)
  from warp_shape [OF P i0 this(1)] warp_shape [OF P i1 this(2)]
  obtain u v where "warp P img0 (slice g 0 (Some 2)) = Inr u" "warp P img1 (slice g 2 (Some 4)) = Inr v"
    by (auto simp: yields_def)
  with Some show ?thesis by (simp add: gt_warps_def)
qed

lemma deconv_up:
  "shape x = (n, cin, h, w) \<Longrightarrow> 0 < h \<Longrightarrow> 0 < w \<Longrightarrow> h' = 2 * h \<Longrightarrow> w' = 2 * w \<Longrightarrow>
   yields (forward (deconv \<theta> cin cout k s p) x) (\<lambda>y. shape y = (n, cout, h', w'))"
  using forward_deconv_shape by simp

lemma FusionNet_forward_trace:
  assumes P: "warp_contract P"
    and i0: "shape img0 = (n, 3, 32 * a, 32 * b)" and i1: "shape img1 = (n, 3, 32 * a, 32 * b)"
    and fl: "shape flow = (n, 2, 32 * a, 32 * b)"
    and c0: "shape c00 = (n, 32, 8 * a, 8 * b)" "shape c01 = (n, 64, 4 * a, 4 * b)"
      "shape c02 = (n, 128, 2 * a, 2 * b)" "shape c03 = (n, 256, a, b)"
    and c1: "shape c10 = (n, 32, 8 * a, 8 * b)" "shape c11 = (n, 64, 4 * a, 4 * b)"
      "shape c12 = (n, 128, 2 * a, 2 * b)" "shape c13 = (n, 256, a, b)"
    and gt: "gt_shaped flow_gt n (32 * a) (32 * b)" and pos: "0 < a" "0 < b"
  shows "\<exists>x t w0 w1 g0 g1.
           FusionNet_forward P (FusionNet_init \<theta> 32) img0 img1 flow
             [c00, c01, c02, c03] [c10, c11, c12, c13] flow_gt = Inr (x, w0, w1, g0, g1) \<and>
           warp P img0 flow = Inr w0 \<and> warp P img1 (neg flow) = Inr w1 \<and>
           gt_warps P img0 img1 flow_gt g0 g1 \<and>
           forward (up4 (FusionNet_init \<theta> 32)) t = Inr x \<and>
           shape t = (n, 16, 16 * a, 16 * b) \<and> shape x = (n, 4, 32 * a, 32 * b) \<and>
           shape w0 = (n, 3, 32 * a, 32 * b) \<and> shape w1 = (n, 3, 32 * a, 32 * b)"
proof -
  let ?net = "FusionNet_init \<theta> 32"
  have f: "FusionNet.conv0 ?net = conv (sub \<theta> ''conv0'') 8 32 3 2 1 1 (Some ''rife'')"
    "down0 ?net = ResBlock_init (sub \<theta> ''down0'') 32 64 2 (Some ''rife'')"
    "down1 ?net = ResBlock_init (sub \<theta> ''down1'') 128 128 2 (Some ''rife'')"
    "down2 ?net = ResBlock_init (sub \<theta> ''down2'') 256 256 2 (Some ''rife'')"
    "down3 ?net = ResBlock_init (sub \<theta> ''down3'') 512 512 2 (Some ''rife'')"
    "up0 ?net = deconv (sub \<theta> ''up0'') 1024 256 4 2 1"
    "up1 ?net = deconv (sub \<theta> ''up1'') 512 128 4 2 1"
    "up2 ?net = deconv (sub \<theta> ''up2'') 256 64 4 2 1"
    "up3 ?net = deconv (sub \<theta> ''up3'') 128 32 4 2 1"
    "conv' ?net = Conv2d 32 16 3 1 1 1 True (\<theta> ''conv'')"
    "up4 ?net = PixelShuffle 2"
    by (simp_all add: FusionNet_init_def)
  from warp_shape [OF P i0 fl] obtain w0 where w0: "warp P img0 flow = Inr w0"
    and sw0: "shape w0 = (n, 3, 32 * a, 32 * b)" by (rule yieldsE)
  have "shape (neg flow) = (n, 2, 32 * a, 32 * b)" using fl by simp
  from warp_shape [OF P i1 this] obtain w1 where w1: "warp P img1 (neg flow) = Inr w1"
    and sw1: "shape w1 = (n, 3, 32 * a, 32 * b)" by (rule yieldsE)
  from gt_case [OF P i0 i1 gt] obtain g0 g1 where
    g: "(case flow_gt of
              None \<Rightarrow> Inr (None, None)
            | Some g \<Rightarrow>
                bindE (warp P img0 (slice g 0 (Some 2))) (\<lambda>w0.
                bindE (warp P img1 (slice g 2 (Some 4))) (\<lambda>w1.
                Inr (Some w0, Some w1)))) = Inr (g0, g1)"
    and gw: "gt_warps P img0 img1 flow_gt g0 g1" by blast
  have conv_out: "yields (forward (Conv2d 32 16 3 1 1 1 True (\<theta> ''conv'')) y)
                (\<lambda>z. shape z = (n, 16, 16 * a, 16 * b))" if "shape y = (n, 32, 16 * a, 16 * b)" for y
    using forward_Conv2d_k3 [OF that, of 1 16 True "\<theta> ''conv''"] pos
    by (simp add: out_size_one)
  have last: "yields (bindE (forward (Conv2d 32 16 3 1 1 1 True (\<theta> ''conv'')) y) (\<lambda>t.
                bindE (forward (PixelShuffle 2) t) (\<lambda>x. Inr (x, w0, w1, g0, g1))))
      (\<lambda>r. \<exists>x t. r = (x, w0, w1, g0, g1) \<and> forward (PixelShuffle 2) t = Inr x \<and>
          shape t = (n, 16, 16 * a, 16 * b) \<and> shape x = (n, 4, 32 * a, 32 * b))"
    if y: "shape y = (n, 32, 16 * a, 16 * b)" for y
  proof -
    from conv_out [OF y] obtain t where t: "forward (Conv2d 32 16 3 1 1 1 True (\<theta> ''conv'')) y = Inr t"
      and st: "shape t = (n, 16, 16 * a, 16 * b)" by (rule yieldsE)
    from forward_PixelShuffle_2 [OF st, of 4] obtain x where x: "forward (PixelShuffle 2) t = Inr x"
      and sx: "shape x = (n, 4, 16 * a * 2, 16 * b * 2)" by (auto simp: yields_def)
    from sx have "shape x = (n, 4, 32 * a, 32 * b)" by simp
    with t x st show ?thesis unfolding yields_def by (simp only: bindE_Inr) blast
  qed
  have "yields (FusionNet_forward P ?net img0 img1 flow [c00, c01, c02, c03] [c10, c11, c12, c13] flow_gt)
      (\<lambda>r. \<exists>x t. r = (x, w0, w1, g0, g1) \<and> forward (PixelShuffle 2) t = Inr x \<and>
          shape t = (n, 16, 16 * a, 16 * b) \<and> shape x = (n, 4, 32 * a, 32 * b))"
    unfolding FusionNet_forward_def
    apply (simp only: w0 w1 g bindE_Inr getitem4 f prod.case)
    apply (rule yields_bind, rule cat3_shape [OF sw0 sw1 fl], simp)
    apply (rule yields_bind, erule call_conv_down [where h' = "16 * a" and w' = "16 * b"],
        simp, simp, simp add: pos, simp add: pos)
    apply (rule yields_bind [where Q = "\<lambda>y. shape y = (n, 64, 8 * a, 8 * b)"],
        erule ResBlock_down, simp, simp, simp add: pos, simp add: pos)
    apply (rule yields_bind, erule cat3_shape [OF _ c0(1) c1(1)], simp)
    apply (rule yields_bind [where Q = "\<lambda>y. shape y = (n, 128, 4 * a, 4 * b)"],
        erule ResBlock_down, simp, simp, simp add: pos, simp add: pos)
    apply (rule yields_bind, erule cat3_shape [OF _ c0(2) c1(2)], simp)
    apply (rule yields_bind [where Q = "\<lambda>y. shape y = (n, 256, 2 * a, 2 * b)"],
        erule ResBlock_down, simp, simp, simp add: pos, simp add: pos)
    apply (rule yields_bind, erule cat3_shape [OF _ c0(3) c1(3)], simp)
    apply (rule yields_bind [where Q = "\<lambda>y. shape y = (n, 512, a, b)"],
        erule ResBlock_down, simp, simp, simp add: pos, simp add: pos)
    apply (rule yields_bind, erule cat3_shape [OF _ c0(4) c1(4)], simp)
    apply (rule yields_bind [where Q = "\<lambda>y. shape y = (n, 256, 2 * a, 2 * b)"],
        erule deconv_up, simp add: pos, simp add: pos, simp, simp)
    apply (rule yields_bind, erule cat2_shape, assumption, simp)
    apply (rule yields_bind [where Q = "\<lambda>y. shape y = (n, 128, 4 * a, 4 * b)"],
        erule deconv_up, simp add: pos, simp add: pos, simp, simp)
    apply (rule yields_bind, erule cat2_shape, assumption, simp)
    apply (rule yields_bind [where Q = "\<lambda>y. shape y = (n, 64, 8 * a, 8 * b)"],
        erule deconv_up, simp add: pos, simp add: pos, simp, simp)
    apply (rule yields_bind, erule cat2_shape, assumption, simp)
    apply (rule yields_bind [where Q = "\<lambda>y. shape y = (n, 32, 16 * a, 16 * b)"],
        erule deconv_up, simp add: pos, simp add: pos, simp, simp)
    apply (erule last)
    done
  then show ?thesis using w0 w1 gw sw0 sw1 unfolding f yields_def by blast
qed

lemma sigmoid_unit: "nan_or_unit (sigmoid v)"
proof (cases v)
  case NaN
  then show ?thesis by (simp add: nan_or_unit_def)
next
  case (Num r)
  have e: "0 < exp (- r)" by simp
  then have p: "0 < 1 + exp (- r)" by (simp add: add_pos_pos)
  from e have "1 \<le> 1 + exp (- r)" by simp
  with p have "1 / (1 + exp (- r)) \<le> 1" by (simp only: divide_le_eq_1_pos)
  moreover from p have "0 \<le> 1 / (1 + exp (- r))" by simp
  ultimately have "0 \<le> 1 / (1 + exp (- r)) \<and> 1 / (1 + exp (- r)) \<le> 1" by (rule conjI [rotated])
  with Num show ?thesis by (simp add: nan_or_unit_def)
qed

lemma clamp_unit: "nan_or_unit (clamp 0 1 v)"
  by (cases v) (simp_all add: nan_or_unit_def)

lemma elems_tmap: "elems (tmap f x) n c i j = f (elems x n c i j)"
  by (simp add: tmap_def)

lemma elems_binop:
  "binop f a b = Inr s \<Longrightarrow>
   elems s n c i j =
     f (elems a (bidx (batch a) n) (bidx (chans a) c) (bidx (height a) i) (bidx (width a) j))
       (elems b (bidx (batch b) n) (bidx (chans b) c) (bidx (height b) i) (bidx (width b) j))"
  by (auto simp: binop_def split: option.splits)

lemma elems_binop_mask:
  assumes "binop f x m = Inr s" "shape x = (n, c, h, w)" "shape m = (n, 1, h, w)"
    and "k < n" "d < c" "i < h" "j < w"
  shows "elems s k d i j = f (elems x k d i j) (elems m k 0 i j)"
proof -
  from assms(2,3) have "batch x = n" "chans x = c" "height x = h" "width x = w"
    "batch m = n" "chans m = 1" "height m = h" "width m = w" by (simp_all add: shape_def)
  with elems_binop [OF assms(1), of k d i j] assms(4-) show ?thesis
    by (simp add: bidx_in_range) (simp add: bidx_def)
qed

lemma tmul_mask_shape:
  "shape x = (n, c, h, w) \<Longrightarrow> shape m = (n, 1, h, w) \<Longrightarrow> yields (tmul x m) (\<lambda>y. shape y = (n, c, h, w))"
  by (simp add: yields_def tmul_def binop_def shape_def)

lemma RIFE_forward_trace:
  assumes P: "warp_contract P"
    and i0: "shape img0 = (n, 3, 32 * a, 32 * b)" and i1: "shape img1 = (n, 3, 32 * a, 32 * b)"
    and gt: "gt_shaped flow_gt n (32 * a) (32 * b)" and pos: "0 < a" "0 < b"
  shows "\<exists>imgs flow Fs c0 c1 f refine w0 w1 g0 g1 p q merged pred.
           cat [img0, img1] = Inr imgs \<and>
           IFNet_forward P (flownet (RIFE_init \<theta>)) imgs = Inr (flow, Fs) \<and>
           ContextNet_forward P (contextnet (RIFE_init \<theta>)) (slice imgs 0 (Some 3)) flow = Inr c0 \<and>
           ContextNet_forward P (contextnet (RIFE_init \<theta>)) (slice imgs 3 None) (neg flow) = Inr c1 \<and>
           interpolate P flow 2 1 = Inr f \<and>
           FusionNet_forward P (fusionnet (RIFE_init \<theta>)) (slice imgs 0 (Some 3)) (slice imgs 3 None)
             (tmap (lift1 (\<lambda>v. v * 2.0)) f) c0 c1 flow_gt = Inr (refine, w0, w1, g0, g1) \<and>
           gt_warps P (slice imgs 0 (Some 3)) (slice imgs 3 None) flow_gt g0 g1 \<and>
           warp P (slice imgs 0 (Some 3)) (tmap (lift1 (\<lambda>v. v * 2.0)) f) = Inr w0 \<and>
           warp P (slice imgs 3 None) (neg (tmap (lift1 (\<lambda>v. v * 2.0)) f)) = Inr w1 \<and>
           tmul w0 (tmap sigmoid (slice refine 3 (Some 4))) = Inr p \<and>
           tmul w1 (tmap (lift1 (\<lambda>v. 1 - v)) (tmap sigmoid (slice refine 3 (Some 4)))) = Inr q \<and>
           tadd p q = Inr merged \<and>
           tadd merged (tmap (lift1 (\<lambda>v. v * 2 - 1)) (tmap sigmoid (slice refine 0 (Some 3)))) = Inr pred \<and>
           RIFE_forward P (RIFE_init \<theta>) (Some img0) (Some img1) x y training flow_gt =
             Inr (if training
                  then Train (tmap (clamp 0 1) pred) (tmap sigmoid (slice refine 3 (Some 4))) merged
                         w0 w1 g0 g1
                  else Pred (tmap (clamp 0 1) pred)) \<and>
           shape refine = (n, 4, 32 * a, 32 * b) \<and>
           shape w0 = (n, 3, 32 * a, 32 * b) \<and> shape w1 = (n, 3, 32 * a, 32 * b) \<and>
           shape p = (n, 3, 32 * a, 32 * b) \<and> shape q = (n, 3, 32 * a, 32 * b) \<and>
           shape merged = (n, 3, 32 * a, 32 * b) \<and> shape pred = (n, 3, 32 * a, 32 * b)"
proof -
  let ?net = "RIFE_init \<theta>"
  let ?S = "(n, 3::nat, 32 * a, 32 * b)"
  have f: "flownet ?net = IFNet_init (sub \<theta> ''flownet'')"
    "contextnet ?net = ContextNet_init (sub \<theta> ''contextnet'') 32"
    "fusionnet ?net = FusionNet_init (sub \<theta> ''fusionnet'') 32"
    by (simp_all add: RIFE_init_def)
  from cat2_shape [OF i0 i1, of 6] obtain imgs where imgs: "cat [img0, img1] = Inr imgs"
    and si: "shape imgs = (n, 6, 32 * a, 32 * b)" by (auto simp: yields_def)
  from IFNet_forward_trace [OF P si pos, of "sub \<theta> ''flownet''"]
  obtain flow Fs where fl: "IFNet_forward P (flownet ?net) imgs = Inr (flow, Fs)"
    and sfl: "shape flow = (n, 2, 16 * a, 16 * b)" unfolding f by blast
  have s0: "shape (slice imgs 0 (Some 3)) = ?S" and s1: "shape (slice imgs 3 None) = ?S"
    using si by (simp_all add: slice_shape slice_open_shape)
  have e32: "out_size (out_size (32 * a) 2) 2 = 8 * a" "(16 * a) div 2 = 8 * a"
    "out_size (out_size (32 * b) 2) 2 = 8 * b" "(16 * b) div 2 = 8 * b"
    using pos by (simp_all add: sizes_32)
  from ContextNet_forward_trace [OF P s0 sfl e32(1,2,3,4) pos, where \<theta> = "sub \<theta> ''contextnet''" and c = 32]
  obtain c00 c01 c02 c03 where
    c0: "ContextNet_forward P (contextnet ?net) (slice imgs 0 (Some 3)) flow = Inr [c00, c01, c02, c03]"
    and sc0: "shape c00 = (n, 32, 8 * a, 8 * b)" "shape c01 = (n, 64, 4 * a, 4 * b)"
      "shape c02 = (n, 128, 2 * a, 2 * b)" "shape c03 = (n, 256, a, b)"
    unfolding f by auto
  have "shape (neg flow) = (n, 2, 16 * a, 16 * b)" using sfl by simp
  from ContextNet_forward_trace [OF P s1 this e32(1,2,3,4) pos, where \<theta> = "sub \<theta> ''contextnet''" and c = 32]
  obtain c10 c11 c12 c13 where
    c1: "ContextNet_forward P (contextnet ?net) (slice imgs 3 None) (neg flow) = Inr [c10, c11, c12, c13]"
    and sc1: "shape c10 = (n, 32, 8 * a, 8 * b)" "shape c11 = (n, 64, 4 * a, 4 * b)"
      "shape c12 = (n, 128, 2 * a, 2 * b)" "shape c13 = (n, 256, a, b)"
    unfolding f by auto
  have "yields (interpolate P flow 2 1) (\<lambda>y. shape y = (n, 2, 32 * a, 32 * b))"
    using pos by (intro interpolate_up [OF sfl]) simp_all
  then obtain u where u: "interpolate P flow 2 1 = Inr u" and su: "shape u = (n, 2, 32 * a, 32 * b)"
    by (rule yieldsE)
  have su': "shape (tmap (lift1 (\<lambda>v. v * 2.0)) u) = (n, 2, 32 * a, 32 * b)" using su by simp
  from FusionNet_forward_trace [OF P s0 s1 su' sc0 sc1 gt pos, of "sub \<theta> ''fusionnet''"]
  obtain refine w0 w1 g0 g1 where
    fu: "FusionNet_forward P (fusionnet ?net) (slice imgs 0 (Some 3)) (slice imgs 3 None)
             (tmap (lift1 (\<lambda>v. v * 2.0)) u) [c00, c01, c02, c03] [c10, c11, c12, c13] flow_gt
           = Inr (refine, w0, w1, g0, g1)"
    and gw: "gt_warps P (slice imgs 0 (Some 3)) (slice imgs 3 None) flow_gt g0 g1"
    and wq: "warp P (slice imgs 0 (Some 3)) (tmap (lift1 (\<lambda>v. v * 2.0)) u) = Inr w0"
      "warp P (slice imgs 3 None) (neg (tmap (lift1 (\<lambda>v. v * 2.0)) u)) = Inr w1"
    and sr: "shape refine = (n, 4, 32 * a, 32 * b)"
    and sw: "shape w0 = ?S" "shape w1 = ?S"
    unfolding f by blast
  let ?mask = "tmap sigmoid (slice refine 3 (Some 4))"
  let ?res = "tmap (lift1 (\<lambda>v. v * 2 - 1)) (tmap sigmoid (slice refine 0 (Some 3)))"
  have sm: "shape ?mask = (n, 1, 32 * a, 32 * b)" and sres: "shape ?res = ?S"
    using sr by (simp_all add: slice_shape)
  from tmul_mask_shape [OF sw(1) sm] obtain p where p: "tmul w0 ?mask = Inr p" and sp: "shape p = ?S"
    by (rule yieldsE)
  have "shape (tmap (lift1 (\<lambda>v. 1 - v)) ?mask) = (n, 1, 32 * a, 32 * b)" using sm by simp
  from tmul_mask_shape [OF sw(2) this] obtain q where q: "tmul w1 (tmap (lift1 (\<lambda>v. 1 - v)) ?mask) = Inr q"
    and sq: "shape q = ?S" by (rule yieldsE)
  from tadd_same_shape [OF sp sq] obtain merged where m: "tadd p q = Inr merged"
    and smg: "shape merged = ?S" by (rule yieldsE)
  from tadd_same_shape [OF smg sres] obtain pred where pr: "tadd merged ?res = Inr pred"
    and spr: "shape pred = ?S" by (rule yieldsE)
  have fw: "RIFE_forward P ?net (Some img0) (Some img1) x y training flow_gt =
             Inr (if training then Train (tmap (clamp 0 1) pred) ?mask merged w0 w1 g0 g1
                  else Pred (tmap (clamp 0 1) pred))"
    unfolding RIFE_forward_def Let_def
    by (simp only: imgs fl c0 c1 u fu p q m pr bindE_Inr prod.case option.case)
  from imgs fl c0 c1 u fu gw wq p q m pr fw sr sw sp sq smg spr show ?thesis by blast
qed


lemma bindE_eq_Inr: "bindE m f = Inr r \<longleftrightarrow> (\<exists>v. m = Inr v \<and> f v = Inr r)"
  by (cases m) simp_all

lemma yields_unique: "yields m Q \<Longrightarrow> m = Inr y \<Longrightarrow> Q y"
  by (auto simp: yields_def)

lemma forward_Conv2d_chans: "forward (Conv2d cin cout k s p d b f) x = Inr y \<Longrightarrow> chans y = cout"
  by (auto simp: forward.simps split: if_splits)

lemma forward_Conv2d_elems: "forward (Conv2d cin cout k s p d b f) x = Inr y \<Longrightarrow> elems y = f x"
  by (auto simp: forward.simps split: if_splits)

lemma forward_PixelShuffle_2_inv:
  assumes "forward (PixelShuffle 2) t = Inr x"
  shows "chans x = chans t div 4" "height x = 2 * height t" "width x = 2 * width t"
    "elems x n c i j = elems t n (c * 2 * 2 + (i mod 2) * 2 + j mod 2) (i div 2) (j div 2)"
  using assms by (auto simp: forward.simps split: if_splits)

lemma FusionNet_forward_chain:
  assumes "FusionNet_forward P self img0 img1 flow c0 c1 flow_gt = Inr (x, w0, w1, g0, g1)"
  shows "\<exists>t. fusion_chain P self img0 img1 flow c0 c1 w0 w1 t x"
  using assms unfolding FusionNet_forward_def fusion_chain_def
  apply (simp only: bindE_eq_Inr)
  apply (elim exE conjE)
  apply (simp only: split_paired_all prod.case bindE_eq_Inr)
  apply (elim exE conjE)
  apply (simp only: sum.inject prod.inject)
  apply (elim conjE)
  apply (intro exI conjI; (assumption | simp only:))
  done


lemma IFNet_forward_chain:
  assumes "IFNet_forward P self x = Inr (F4, Fs)"
  shows "\<exists>x' in1 in2 in3 flow0 flow1 flow2 flow3 F2 F3.
           Fs = [flow0, F2, F3, F4] \<and>
           interpolate P x 1 2 = Inr x' \<and>
           IFBlock_forward P (block0 self) x' = Inr flow0 \<and>
           stage P x' flow0 in1 \<and>
           IFBlock_forward P (block1 self) in1 = Inr flow1 \<and>
           tadd flow0 flow1 = Inr F2 \<and>
           stage P x' F2 in2 \<and>
           IFBlock_forward P (block2 self) in2 = Inr flow2 \<and>
           tadd F2 flow2 = Inr F3 \<and>
           stage P x' F3 in3 \<and>
           IFBlock_forward P (block3 self) in3 = Inr flow3 \<and>
           tadd F3 flow3 = Inr F4"
  using assms unfolding IFNet_forward_def stage_def Let_def
  apply (simp only: bindE_eq_Inr)
  apply (elim exE conjE)
  apply (simp only: sum.inject prod.inject)
  apply (elim conjE)
  apply hypsubst
  apply (intro exI conjI; (assumption | simp only:))
  done


lemma ContextNet_forward_chain:
  assumes "ContextNet_forward P self x flow = Inr r"
  shows "\<exists>x0 x1 x2 x3 x4 g1 g2 g3 g4 f1 f2 f3 f4.
           r = [f1, f2, f3, f4] \<and>
           call (ContextNet.conv0 self) x = Inr x0 \<and>
           ResBlock_forward (ContextNet.conv1 self) x0 = Inr x1 \<and>
           halve P flow = Inr g1 \<and> warp P x1 g1 = Inr f1 \<and>
           ResBlock_forward (ContextNet.conv2 self) x1 = Inr x2 \<and>
           halve P g1 = Inr g2 \<and> warp P x2 g2 = Inr f2 \<and>
           ResBlock_forward (conv3 self) x2 = Inr x3 \<and>
           halve P g2 = Inr g3 \<and> warp P x3 g3 = Inr f3 \<and>
           ResBlock_forward (conv4 self) x3 = Inr x4 \<and>
           halve P g3 = Inr g4 \<and> warp P x4 g4 = Inr f4"
  using assms unfolding ContextNet_forward_def
  apply (simp only: bindE_eq_Inr)
  apply (elim exE conjE)
  apply (simp only: sum.inject)
  apply hypsubst
  apply (intro exI conjI; (assumption | rule refl))
  done

lemma halve_inv:
  assumes "halve P g = Inr g'"
  shows "\<exists>u. interpolate P g 1 2 = Inr u \<and> g' = tmap (lift1 (\<lambda>v. v * 0.5)) u"
  using assms unfolding halve_def by (auto simp: bindE_eq_Inr)


lemma plain_prims_contract: "warp_contract plain_prims"
  by (simp add: warp_contract_def plain_prims_def shape_def)

lemma shape_zeros: "shape (zeros n c h w) = (n, c, h, w)"
  by (simp add: shape_def zeros_def)

lemma shape_nans: "shape (nans n c h w) = (n, c, h, w)"
  by (simp add: shape_def nans_def)


lemma plain_warp_id: "warp plain_prims img fl = Inr w \<Longrightarrow> w = img"
  by (auto simp: plain_prims_def split: if_splits)

lemma elems_cat2_first:
  "cat [a, b] = Inr t \<Longrightarrow> c < chans a \<Longrightarrow> elems t n c i j = elems a n c i j"
  by (auto simp: cat.simps split: if_splits)

lemma elems_slice0: "elems (slice x 0 hi) n c i j = elems x n c i j"
  by (simp add: slice_def Let_def)

lemma elems_binop_origin:
  "binop f a b = Inr s \<Longrightarrow> elems s 0 0 0 0 = f (elems a 0 0 0 0) (elems b 0 0 0 0)"
  using elems_binop [of f a b s 0 0 0 0] by (simp add: bidx_def)

lemma fadd_NaN [simp]: "fadd NaN v = NaN" "fadd v NaN = NaN"
  by (cases v; simp add: fadd_def)+

lemma fmul_NaN [simp]: "fmul NaN v = NaN" "fmul v NaN = NaN"
  by (cases v; simp add: fmul_def)+

lemma nan_dict_conv_elems:
  assumes "forward (conv' (FusionNet_init (sub nan_dict name) c)) u = Inr t"
    and "forward (up4 (FusionNet_init (sub nan_dict name) c)) t = Inr x"
  shows "elems x n d i j = NaN"
proof -
  have f: "conv' (FusionNet_init (sub nan_dict name) c) =
      Conv2d c 16 3 1 1 1 True (sub nan_dict name ''conv'')"
    "up4 (FusionNet_init (sub nan_dict name) c) = PixelShuffle 2"
    by (simp_all add: FusionNet_init_def)
  from assms(1) have "elems t = sub nan_dict name ''conv'' u"
    unfolding f by (rule forward_Conv2d_elems)
  then have t: "elems t = (\<lambda>_ _ _ _. NaN)" by (simp add: sub_def nan_dict_def)
  from assms(2) have "forward (PixelShuffle 2) t = Inr x" unfolding f .
  from forward_PixelShuffle_2_inv(4) [OF this, of n d i j] t show ?thesis by simp
qed


subsection \<open>ResBlock\<close>





subsection \<open>IFNet\<close>

text \<open>
  C2, as the code has it. Whenever \<open>IFNet.forward\<close> returns, it returns the pair of \<open>F4\<close> and
  the list \<open>[F1, F2, F3, F4]\<close>, where \<open>flow0 .. flow3\<close> are the results of the four blocks on the
  inputs of their stages, \<open>F1\<close> is \<open>flow0\<close>, \<open>F2 = flow0 + flow1\<close>, \<open>F3 = F2 + flow2\<close> and
  \<open>F4 = F3 + flow3\<close> (the sums of the library, formed from the left); when the four flows have
  one shape, every element of \<open>F2\<close>, \<open>F3\<close> and \<open>F4\<close> is the floating-point sum, from the left, of
  the elements of the flows at the same position. For an input of six channels whose height
  and width are positive multiples of 32, with a warp that accepts every flow matching its
  image, \<open>IFNet.forward\<close> does return, and the four flows and the cumulative flows all have
  two channels and half the height and width of the input.
\<close>

theorem IFNet_flow_accumulation:
  "(\<forall>F4 Fs. IFNet_forward P self x = Inr (F4, Fs) \<longrightarrow>
      (\<exists>x' in1 in2 in3 flow0 flow1 flow2 flow3 F1 F2 F3.
         Fs = [F1, F2, F3, F4] \<and> F1 = flow0 \<and>
         interpolate P x 1 2 = Inr x' \<and>
         IFBlock_forward P (block0 self) x' = Inr flow0 \<and>
         stage P x' F1 in1 \<and> IFBlock_forward P (block1 self) in1 = Inr flow1 \<and>
         stage P x' F2 in2 \<and> IFBlock_forward P (block2 self) in2 = Inr flow2 \<and>
         stage P x' F3 in3 \<and> IFBlock_forward P (block3 self) in3 = Inr flow3 \<and>
         tadd flow0 flow1 = Inr F2 \<and> tadd F2 flow2 = Inr F3 \<and> tadd F3 flow3 = Inr F4 \<and>
         (shape flow1 = shape flow0 \<and> shape flow2 = shape flow0 \<and> shape flow3 = shape flow0 \<longrightarrow>
            shape F2 = shape flow0 \<and> shape F3 = shape flow0 \<and> shape F4 = shape flow0 \<and>
            (\<forall>k c i j. k < batch flow0 \<and> c < chans flow0 \<and> i < height flow0 \<and> j < width flow0 \<longrightarrow>
               elems F2 k c i j = fadd (elems flow0 k c i j) (elems flow1 k c i j) \<and>
               elems F3 k c i j =
                 fadd (fadd (elems flow0 k c i j) (elems flow1 k c i j)) (elems flow2 k c i j) \<and>
               elems F4 k c i j =
                 fadd (fadd (fadd (elems flow0 k c i j) (elems flow1 k c i j)) (elems flow2 k c i j))
                   (elems flow3 k c i j))))) \<and>
   (warp_contract P \<and> shape x = (n, 6, 32 * a, 32 * b) \<and> 0 < a \<and> 0 < b \<longrightarrow>
      (\<exists>x' in1 in2 in3 flow0 flow1 flow2 flow3 F2 F3 F4.
         interpolate P x 1 2 = Inr x' \<and>
         IFBlock_forward P (block0 (IFNet_init \<theta>)) x' = Inr flow0 \<and>
         stage P x' flow0 in1 \<and>
         IFBlock_forward P (block1 (IFNet_init \<theta>)) in1 = Inr flow1 \<and>
         tadd flow0 flow1 = Inr F2 \<and>
         stage P x' F2 in2 \<and>
         IFBlock_forward P (block2 (IFNet_init \<theta>)) in2 = Inr flow2 \<and>
         tadd F2 flow2 = Inr F3 \<and>
         stage P x' F3 in3 \<and>
         IFBlock_forward P (block3 (IFNet_init \<theta>)) in3 = Inr flow3 \<and>
         tadd F3 flow3 = Inr F4 \<and>
         IFNet_forward P (IFNet_init \<theta>) x = Inr (F4, [flow0, F2, F3, F4]) \<and>
         shape x' = (n, 6, 16 * a, 16 * b) \<and>
         shape flow0 = (n, 2, 16 * a, 16 * b) \<and> shape flow1 = (n, 2, 16 * a, 16 * b) \<and>
         shape flow2 = (n, 2, 16 * a, 16 * b) \<and> shape flow3 = (n, 2, 16 * a, 16 * b) \<and>
         shape F2 = (n, 2, 16 * a, 16 * b) \<and> shape F3 = (n, 2, 16 * a, 16 * b) \<and>
         shape F4 = (n, 2, 16 * a, 16 * b)))"
proof (intro conjI allI impI)
  fix F4 Fs
  assume "IFNet_forward P self x = Inr (F4, Fs)"
  from IFNet_forward_chain [OF this]
  obtain x' in1 in2 in3 flow0 flow1 flow2 flow3 F2 F3 where
    fs: "Fs = [flow0, F2, F3, F4]"
    and ch: "interpolate P x 1 2 = Inr x'"
      "IFBlock_forward P (block0 self) x' = Inr flow0"
      "stage P x' flow0 in1" "IFBlock_forward P (block1 self) in1 = Inr flow1"
      "stage P x' F2 in2" "IFBlock_forward P (block2 self) in2 = Inr flow2"
      "stage P x' F3 in3" "IFBlock_forward P (block3 self) in3 = Inr flow3"
    and t: "tadd flow0 flow1 = Inr F2" "tadd F2 flow2 = Inr F3" "tadd F3 flow3 = Inr F4"
    by blast
  have el: "shape F2 = shape flow0 \<and> shape F3 = shape flow0 \<and> shape F4 = shape flow0 \<and>
            (\<forall>k c i j. k < batch flow0 \<and> c < chans flow0 \<and> i < height flow0 \<and> j < width flow0 \<longrightarrow>
               elems F2 k c i j = fadd (elems flow0 k c i j) (elems flow1 k c i j) \<and>
               elems F3 k c i j =
                 fadd (fadd (elems flow0 k c i j) (elems flow1 k c i j)) (elems flow2 k c i j) \<and>
               elems F4 k c i j =
                 fadd (fadd (fadd (elems flow0 k c i j) (elems flow1 k c i j)) (elems flow2 k c i j))
                   (elems flow3 k c i j))"
    if s: "shape flow1 = shape flow0 \<and> shape flow2 = shape flow0 \<and> shape flow3 = shape flow0"
  proof -
    obtain m d h w where s0: "shape flow0 = (m, d, h, w)" by (cases "shape flow0") auto
    with s have s1: "shape flow1 = (m, d, h, w)" and s2: "shape flow2 = (m, d, h, w)"
      and s3: "shape flow3 = (m, d, h, w)" by simp_all
    from tadd_same_shape [OF s0 s1] t(1) have sF2: "shape F2 = (m, d, h, w)"
      by (simp add: yields_def)
    from tadd_same_shape [OF sF2 s2] t(2) have sF3: "shape F3 = (m, d, h, w)"
      by (simp add: yields_def)
    from tadd_same_shape [OF sF3 s3] t(3) have sF4: "shape F4 = (m, d, h, w)"
      by (simp add: yields_def)
    have d: "batch flow0 = m" "chans flow0 = d" "height flow0 = h" "width flow0 = w"
      "batch F2 = m" "chans F2 = d" "height F2 = h" "width F2 = w"
      "batch F3 = m" "chans F3 = d" "height F3 = h" "width F3 = w"
      using s0 sF2 sF3 by (simp_all add: shape_def)
    have "elems F2 k c i j = fadd (elems flow0 k c i j) (elems flow1 k c i j) \<and>
          elems F3 k c i j =
            fadd (fadd (elems flow0 k c i j) (elems flow1 k c i j)) (elems flow2 k c i j) \<and>
          elems F4 k c i j =
            fadd (fadd (fadd (elems flow0 k c i j) (elems flow1 k c i j)) (elems flow2 k c i j))
              (elems flow3 k c i j)"
      if r: "k < batch flow0 \<and> c < chans flow0 \<and> i < height flow0 \<and> j < width flow0" for k c i j
    proof -
      have 2: "elems F2 k c i j = fadd (elems flow0 k c i j) (elems flow1 k c i j)"
        using t(1) s0 s1 r d unfolding tadd_def by (intro elems_binop_same) simp_all
      have 3: "elems F3 k c i j = fadd (elems F2 k c i j) (elems flow2 k c i j)"
        using t(2) sF2 s2 r d unfolding tadd_def by (intro elems_binop_same) simp_all
      have 4: "elems F4 k c i j = fadd (elems F3 k c i j) (elems flow3 k c i j)"
        using t(3) sF3 s3 r d unfolding tadd_def by (intro elems_binop_same) simp_all
      from 2 3 4 show ?thesis by simp
    qed
    with s0 sF2 sF3 sF4 show ?thesis by simp
  qed
  have el': "shape flow1 = shape flow0 \<and> shape flow2 = shape flow0 \<and> shape flow3 = shape flow0 \<longrightarrow>
            shape F2 = shape flow0 \<and> shape F3 = shape flow0 \<and> shape F4 = shape flow0 \<and>
            (\<forall>k c i j. k < batch flow0 \<and> c < chans flow0 \<and> i < height flow0 \<and> j < width flow0 \<longrightarrow>
               elems F2 k c i j = fadd (elems flow0 k c i j) (elems flow1 k c i j) \<and>
               elems F3 k c i j =
                 fadd (fadd (elems flow0 k c i j) (elems flow1 k c i j)) (elems flow2 k c i j) \<and>
               elems F4 k c i j =
                 fadd (fadd (fadd (elems flow0 k c i j) (elems flow1 k c i j)) (elems flow2 k c i j))
                   (elems flow3 k c i j))"
    by (rule impI) (rule el)
  have "Fs = [flow0, F2, F3, F4] \<and> flow0 = flow0 \<and>
         interpolate P x 1 2 = Inr x' \<and>
         IFBlock_forward P (block0 self) x' = Inr flow0 \<and>
         stage P x' flow0 in1 \<and> IFBlock_forward P (block1 self) in1 = Inr flow1 \<and>
         stage P x' F2 in2 \<and> IFBlock_forward P (block2 self) in2 = Inr flow2 \<and>
         stage P x' F3 in3 \<and> IFBlock_forward P (block3 self) in3 = Inr flow3 \<and>
         tadd flow0 flow1 = Inr F2 \<and> tadd F2 flow2 = Inr F3 \<and> tadd F3 flow3 = Inr F4 \<and>
         (shape flow1 = shape flow0 \<and> shape flow2 = shape flow0 \<and> shape flow3 = shape flow0 \<longrightarrow>
            shape F2 = shape flow0 \<and> shape F3 = shape flow0 \<and> shape F4 = shape flow0 \<and>
            (\<forall>k c i j. k < batch flow0 \<and> c < chans flow0 \<and> i < height flow0 \<and> j < width flow0 \<longrightarrow>
               elems F2 k c i j = fadd (elems flow0 k c i j) (elems flow1 k c i j) \<and>
               elems F3 k c i j =
                 fadd (fadd (elems flow0 k c i j) (elems flow1 k c i j)) (elems flow2 k c i j) \<and>
               elems F4 k c i j =
                 fadd (fadd (fadd (elems flow0 k c i j) (elems flow1 k c i j)) (elems flow2 k c i j))
                   (elems flow3 k c i j)))"
    using fs ch t el' by - (intro conjI; (rule refl | assumption))
  then show "\<exists>x' in1 in2 in3 flow0 flow1 flow2 flow3 F1 F2 F3.
         Fs = [F1, F2, F3, F4] \<and> F1 = flow0 \<and>
         interpolate P x 1 2 = Inr x' \<and>
         IFBlock_forward P (block0 self) x' = Inr flow0 \<and>
         stage P x' F1 in1 \<and> IFBlock_forward P (block1 self) in1 = Inr flow1 \<and>
         stage P x' F2 in2 \<and> IFBlock_forward P (block2 self) in2 = Inr flow2 \<and>
         stage P x' F3 in3 \<and> IFBlock_forward P (block3 self) in3 = Inr flow3 \<and>
         tadd flow0 flow1 = Inr F2 \<and> tadd F2 flow2 = Inr F3 \<and> tadd F3 flow3 = Inr F4 \<and>
         (shape flow1 = shape flow0 \<and> shape flow2 = shape flow0 \<and> shape flow3 = shape flow0 \<longrightarrow>
            shape F2 = shape flow0 \<and> shape F3 = shape flow0 \<and> shape F4 = shape flow0 \<and>
            (\<forall>k c i j. k < batch flow0 \<and> c < chans flow0 \<and> i < height flow0 \<and> j < width flow0 \<longrightarrow>
               elems F2 k c i j = fadd (elems flow0 k c i j) (elems flow1 k c i j) \<and>
               elems F3 k c i j =
                 fadd (fadd (elems flow0 k c i j) (elems flow1 k c i j)) (elems flow2 k c i j) \<and>
               elems F4 k c i j =
                 fadd (fadd (fadd (elems flow0 k c i j) (elems flow1 k c i j)) (elems flow2 k c i j))
                   (elems flow3 k c i j)))"
    by - ((rule exI)+, assumption)
next
  assume h: "warp_contract P \<and> shape x = (n, 6, 32 * a, 32 * b) \<and> 0 < a \<and> 0 < b"
  then have P: "warp_contract P" and x: "shape x = (n, 6, 32 * a, 32 * b)" and pos: "0 < a" "0 < b"
    by simp_all
  show "\<exists>x' in1 in2 in3 flow0 flow1 flow2 flow3 F2 F3 F4.
       interpolate P x 1 2 = Inr x' \<and>
       IFBlock_forward P (block0 (IFNet_init \<theta>)) x' = Inr flow0 \<and>
       stage P x' flow0 in1 \<and>
       IFBlock_forward P (block1 (IFNet_init \<theta>)) in1 = Inr flow1 \<and>
       tadd flow0 flow1 = Inr F2 \<and>
       stage P x' F2 in2 \<and>
       IFBlock_forward P (block2 (IFNet_init \<theta>)) in2 = Inr flow2 \<and>
       tadd F2 flow2 = Inr F3 \<and>
       stage P x' F3 in3 \<and>
       IFBlock_forward P (block3 (IFNet_init \<theta>)) in3 = Inr flow3 \<and>
       tadd F3 flow3 = Inr F4 \<and>
       IFNet_forward P (IFNet_init \<theta>) x = Inr (F4, [flow0, F2, F3, F4]) \<and>
       shape x' = (n, 6, 16 * a, 16 * b) \<and>
       shape flow0 = (n, 2, 16 * a, 16 * b) \<and> shape flow1 = (n, 2, 16 * a, 16 * b) \<and>
       shape flow2 = (n, 2, 16 * a, 16 * b) \<and> shape flow3 = (n, 2, 16 * a, 16 * b) \<and>
       shape F2 = (n, 2, 16 * a, 16 * b) \<and> shape F3 = (n, 2, 16 * a, 16 * b) \<and>
       shape F4 = (n, 2, 16 * a, 16 * b)"
    by (rule IFNet_forward_trace [OF P x pos])
qed

theorem IFNet_flow_accumulation_witness:
  "\<exists>flow0 flow1 flow2 flow3 F2 F3 F4.
      IFNet_forward plain_prims (IFNet_init zero_dict) (zeros 1 6 32 32) =
        Inr (F4, [flow0, F2, F3, F4]) \<and>
      tadd flow0 flow1 = Inr F2 \<and> tadd F2 flow2 = Inr F3 \<and> tadd F3 flow3 = Inr F4 \<and>
      shape F4 = (1, 2, 16, 16)"
proof -
  note T = IFNet_flow_accumulation
    [of plain_prims "IFNet_init zero_dict" "zeros 1 6 32 32" 1 1 1 zero_dict]
  have "warp_contract plain_prims \<and> shape (zeros 1 6 32 32) = (1, 6, 32 * 1, 32 * 1) \<and>
        0 < (1::nat) \<and> 0 < (1::nat)"
    by (simp add: plain_prims_contract shape_zeros)
  from T [THEN conjunct2, THEN mp, OF this]
  obtain flow0 F2 F3 F4 where
    fw: "IFNet_forward plain_prims (IFNet_init zero_dict) (zeros 1 6 32 32) =
           Inr (F4, [flow0, F2, F3, F4])"
    and s: "shape F4 = (1, 2, 16 * 1, 16 * 1)"
    by (elim exE conjE) (rule that)
  from T [THEN conjunct1, THEN spec, THEN spec, THEN mp, OF fw]
  obtain f0 f1 f2 f3 G1 G2 G3 where
    l: "[flow0, F2, F3, F4] = [G1, G2, G3, F4]" and g: "G1 = f0"
    and t: "tadd f0 f1 = Inr G2" "tadd G2 f2 = Inr G3" "tadd G3 f3 = Inr F4"
    by (elim exE conjE) (rule that)
  from l g t have "tadd flow0 f1 = Inr F2" "tadd F2 f2 = Inr F3" "tadd F3 f3 = Inr F4"
    by simp_all
  with fw s show ?thesis by (intro exI conjI) simp_all
qed

text \<open>C2, as the claim states it, fails: \<open>IFNet.forward\<close> does not return on every input
  tensor. On an input of height and width 1 the first interpolation, by the factor 0.5,
  raises a RuntimeError (the output size would be zero).\<close>

theorem IFNet_every_input_counterexample:
  "IFNet_forward plain_prims (IFNet_init zero_dict) (zeros 1 6 1 1) = Inl RuntimeError"
  by (simp add: IFNet_forward_def interpolate_def zeros_def)


text \<open>
  C8. \<open>IFNet.forward\<close> runs exactly four stages. Stage 0 applies \<open>block0\<close> to the concatenated
  frame pair as it is (the input at the working resolution of the network, half of the
  resolution it is given), without a warp. Each of the stages 1, 2 and 3 applies its block
  to the concatenation of frame 0 (channels 0..2) warped by the flow accumulated through the
  previous stage, frame 1 (the channels from 3 on) warped by the negated accumulated flow,
  and the accumulated flow itself; \<open>stage P x' F inp\<close> says that \<open>inp\<close> is this
  concatenation for the frame pair \<open>x'\<close> and the accumulated flow \<open>F\<close>.
\<close>

theorem IFNet_cascade_inputs:
  assumes "warp_contract P" and "shape x = (n, 6, 32 * a, 32 * b)" and "0 < a" and "0 < b"
  shows "\<exists>x' in1 in2 in3 flow0 flow1 flow2 flow3 F2 F3 F4.
           interpolate P x 1 2 = Inr x' \<and>
           IFBlock_forward P (block0 (IFNet_init \<theta>)) x' = Inr flow0 \<and>
           stage P x' flow0 in1 \<and>
           IFBlock_forward P (block1 (IFNet_init \<theta>)) in1 = Inr flow1 \<and>
           tadd flow0 flow1 = Inr F2 \<and>
           stage P x' F2 in2 \<and>
           IFBlock_forward P (block2 (IFNet_init \<theta>)) in2 = Inr flow2 \<and>
           tadd F2 flow2 = Inr F3 \<and>
           stage P x' F3 in3 \<and>
           IFBlock_forward P (block3 (IFNet_init \<theta>)) in3 = Inr flow3 \<and>
           tadd F3 flow3 = Inr F4 \<and>
           IFNet_forward P (IFNet_init \<theta>) x = Inr (F4, [flow0, F2, F3, F4])"
  using IFNet_forward_trace [OF assms, of \<theta>] by blast

theorem IFNet_cascade_inputs_witness:
  "\<exists>x' in1 flow0 flow1.
      interpolate plain_prims (zeros 1 6 32 32) 1 2 = Inr x' \<and>
      IFBlock_forward plain_prims (block0 (IFNet_init zero_dict)) x' = Inr flow0 \<and>
      stage plain_prims x' flow0 in1 \<and>
      IFBlock_forward plain_prims (block1 (IFNet_init zero_dict)) in1 = Inr flow1"
  using IFNet_cascade_inputs [OF plain_prims_contract, of "zeros 1 6 32 32" 1 1 1 zero_dict]
  by (simp add: shape_zeros) blast


subsection \<open>ContextNet\<close>

text \<open>
  C7, as the code has it. Whenever \<open>ContextNet.forward\<close> returns, it returns a list of exactly
  four feature tensors \<open>[f1, f2, f3, f4]\<close>: level \<open>i\<close> is the result \<open>x\<^sub>i\<close> of the \<open>i\<close>-th
  downsampling ResBlock warped by the flow \<open>g\<^sub>i\<close>, where \<open>g\<^sub>1\<close> is the halved input flow and
  the flow of each later level is the halved flow of the level before (\<open>halve\<close> is the
  bilinear resize by the factor 0.5 followed by the multiplication of the values by 0.5);
  the input flow is not read again after level 1. For an image of three channels and a flow
  of two channels such that the image after the two first strided convolutions and the flow
  after its first halving have the same height and width, both positive multiples of 8 (as
  for an image whose height and width are positive multiples of 32 and a flow of half that
  resolution, what \<open>RIFE.forward\<close> passes), with a warp that accepts every flow matching its
  image, \<open>ContextNet.forward\<close> does return, and each level has half the height and width of
  the level before.
\<close>

theorem ContextNet_pyramid:
  "(\<forall>r. ContextNet_forward P self x flow = Inr r \<longrightarrow>
      (\<exists>x0 x1 x2 x3 x4 g1 g2 g3 g4 f1 f2 f3 f4 u1 u2 u3 u4.
         r = [f1, f2, f3, f4] \<and>
         call (ContextNet.conv0 self) x = Inr x0 \<and>
         ResBlock_forward (ContextNet.conv1 self) x0 = Inr x1 \<and>
         halve P flow = Inr g1 \<and> warp P x1 g1 = Inr f1 \<and>
         ResBlock_forward (ContextNet.conv2 self) x1 = Inr x2 \<and>
         halve P g1 = Inr g2 \<and> warp P x2 g2 = Inr f2 \<and>
         ResBlock_forward (conv3 self) x2 = Inr x3 \<and>
         halve P g2 = Inr g3 \<and> warp P x3 g3 = Inr f3 \<and>
         ResBlock_forward (conv4 self) x3 = Inr x4 \<and>
         halve P g3 = Inr g4 \<and> warp P x4 g4 = Inr f4 \<and>
         interpolate P flow 1 2 = Inr u1 \<and> g1 = tmap (lift1 (\<lambda>v. v * 0.5)) u1 \<and>
         interpolate P g1 1 2 = Inr u2 \<and> g2 = tmap (lift1 (\<lambda>v. v * 0.5)) u2 \<and>
         interpolate P g2 1 2 = Inr u3 \<and> g3 = tmap (lift1 (\<lambda>v. v * 0.5)) u3 \<and>
         interpolate P g3 1 2 = Inr u4 \<and> g4 = tmap (lift1 (\<lambda>v. v * 0.5)) u4)) \<and>
   (warp_contract P \<and> shape x = (n, 3, H, W) \<and> shape flow = (n, 2, h2, w2) \<and>
    out_size (out_size H 2) 2 = 8 * a \<and> h2 div 2 = 8 * a \<and>
    out_size (out_size W 2) 2 = 8 * b \<and> w2 div 2 = 8 * b \<and> 0 < a \<and> 0 < b \<longrightarrow>
      (\<exists>f1 f2 f3 f4.
         ContextNet_forward P (ContextNet_init \<theta> c) x flow = Inr [f1, f2, f3, f4] \<and>
         shape f1 = (n, c, 8 * a, 8 * b) \<and> shape f2 = (n, 2 * c, 4 * a, 4 * b) \<and>
         shape f3 = (n, 4 * c, 2 * a, 2 * b) \<and> shape f4 = (n, 8 * c, a, b) \<and>
         height f1 = 2 * height f2 \<and> height f2 = 2 * height f3 \<and> height f3 = 2 * height f4 \<and>
         width f1 = 2 * width f2 \<and> width f2 = 2 * width f3 \<and> width f3 = 2 * width f4))"
proof (intro conjI allI impI)
  fix r
  assume "ContextNet_forward P self x flow = Inr r"
  from ContextNet_forward_chain [OF this]
  obtain x0 x1 x2 x3 x4 g1 g2 g3 g4 f1 f2 f3 f4 where
    r: "r = [f1, f2, f3, f4]"
    and c: "call (ContextNet.conv0 self) x = Inr x0"
      "ResBlock_forward (ContextNet.conv1 self) x0 = Inr x1"
      "ResBlock_forward (ContextNet.conv2 self) x1 = Inr x2"
      "ResBlock_forward (conv3 self) x2 = Inr x3"
      "ResBlock_forward (conv4 self) x3 = Inr x4"
    and h: "halve P flow = Inr g1" "halve P g1 = Inr g2" "halve P g2 = Inr g3" "halve P g3 = Inr g4"
    and w: "warp P x1 g1 = Inr f1" "warp P x2 g2 = Inr f2" "warp P x3 g3 = Inr f3"
      "warp P x4 g4 = Inr f4"
    by (elim exE conjE) (rule that)
  from halve_inv [OF h(1)] obtain u1 where
    u1: "interpolate P flow 1 2 = Inr u1" "g1 = tmap (lift1 (\<lambda>v. v * 0.5)) u1"
    by (elim exE conjE) (rule that)
  from halve_inv [OF h(2)] obtain u2 where
    u2: "interpolate P g1 1 2 = Inr u2" "g2 = tmap (lift1 (\<lambda>v. v * 0.5)) u2"
    by (elim exE conjE) (rule that)
  from halve_inv [OF h(3)] obtain u3 where
    u3: "interpolate P g2 1 2 = Inr u3" "g3 = tmap (lift1 (\<lambda>v. v * 0.5)) u3"
    by (elim exE conjE) (rule that)
  from halve_inv [OF h(4)] obtain u4 where
    u4: "interpolate P g3 1 2 = Inr u4" "g4 = tmap (lift1 (\<lambda>v. v * 0.5)) u4"
    by (elim exE conjE) (rule that)
  show "\<exists>x0 x1 x2 x3 x4 g1 g2 g3 g4 f1 f2 f3 f4 u1 u2 u3 u4.
         r = [f1, f2, f3, f4] \<and>
         call (ContextNet.conv0 self) x = Inr x0 \<and>
         ResBlock_forward (ContextNet.conv1 self) x0 = Inr x1 \<and>
         halve P flow = Inr g1 \<and> warp P x1 g1 = Inr f1 \<and>
         ResBlock_forward (ContextNet.conv2 self) x1 = Inr x2 \<and>
         halve P g1 = Inr g2 \<and> warp P x2 g2 = Inr f2 \<and>
         ResBlock_forward (conv3 self) x2 = Inr x3 \<and>
         halve P g2 = Inr g3 \<and> warp P x3 g3 = Inr f3 \<and>
         ResBlock_forward (conv4 self) x3 = Inr x4 \<and>
         halve P g3 = Inr g4 \<and> warp P x4 g4 = Inr f4 \<and>
         interpolate P flow 1 2 = Inr u1 \<and> g1 = tmap (lift1 (\<lambda>v. v * 0.5)) u1 \<and>
         interpolate P g1 1 2 = Inr u2 \<and> g2 = tmap (lift1 (\<lambda>v. v * 0.5)) u2 \<and>
         interpolate P g2 1 2 = Inr u3 \<and> g3 = tmap (lift1 (\<lambda>v. v * 0.5)) u3 \<and>
         interpolate P g3 1 2 = Inr u4 \<and> g4 = tmap (lift1 (\<lambda>v. v * 0.5)) u4"
    apply (rule exI [of _ x0], rule exI [of _ x1], rule exI [of _ x2], rule exI [of _ x3],
        rule exI [of _ x4], rule exI [of _ g1], rule exI [of _ g2], rule exI [of _ g3],
        rule exI [of _ g4], rule exI [of _ f1], rule exI [of _ f2], rule exI [of _ f3],
        rule exI [of _ f4], rule exI [of _ u1], rule exI [of _ u2], rule exI [of _ u3],
        rule exI [of _ u4])
    apply (intro conjI; (rule r c h w u1 u2 u3 u4))
    done
next
  assume h: "warp_contract P \<and> shape x = (n, 3, H, W) \<and> shape flow = (n, 2, h2, w2) \<and>
    out_size (out_size H 2) 2 = 8 * a \<and> h2 div 2 = 8 * a \<and>
    out_size (out_size W 2) 2 = 8 * b \<and> w2 div 2 = 8 * b \<and> 0 < a \<and> 0 < b"
  then have P: "warp_contract P" and x: "shape x = (n, 3, H, W)"
    and fl: "shape flow = (n, 2, h2, w2)"
    and eh: "out_size (out_size H 2) 2 = 8 * a" "h2 div 2 = 8 * a"
    and ew: "out_size (out_size W 2) 2 = 8 * b" "w2 div 2 = 8 * b"
    and pos: "0 < a" "0 < b"
    by simp_all
  from ContextNet_forward_trace [OF P x fl eh ew pos, where \<theta> = \<theta> and c = c]
  obtain f1 f2 f3 f4 where
    t: "ContextNet_forward P (ContextNet_init \<theta> c) x flow = Inr [f1, f2, f3, f4]"
    and s: "shape f1 = (n, c, 8 * a, 8 * b)" "shape f2 = (n, 2 * c, 4 * a, 4 * b)"
       "shape f3 = (n, 4 * c, 2 * a, 2 * b)" "shape f4 = (n, 8 * c, a, b)"
    by (elim exE conjE) (rule that)
  from s have e: "height f1 = 2 * height f2" "height f2 = 2 * height f3" "height f3 = 2 * height f4"
    "width f1 = 2 * width f2" "width f2 = 2 * width f3" "width f3 = 2 * width f4"
    by (simp_all add: shape_def)
  show "\<exists>f1 f2 f3 f4.
         ContextNet_forward P (ContextNet_init \<theta> c) x flow = Inr [f1, f2, f3, f4] \<and>
         shape f1 = (n, c, 8 * a, 8 * b) \<and> shape f2 = (n, 2 * c, 4 * a, 4 * b) \<and>
         shape f3 = (n, 4 * c, 2 * a, 2 * b) \<and> shape f4 = (n, 8 * c, a, b) \<and>
         height f1 = 2 * height f2 \<and> height f2 = 2 * height f3 \<and> height f3 = 2 * height f4 \<and>
         width f1 = 2 * width f2 \<and> width f2 = 2 * width f3 \<and> width f3 = 2 * width f4"
    apply (rule exI [of _ f1], rule exI [of _ f2], rule exI [of _ f3], rule exI [of _ f4])
    apply (intro conjI; (rule t s e))
    done
qed

theorem ContextNet_pyramid_witness:
  "\<exists>f1 f2 f3 f4 g1 g2 g3 g4.
      ContextNet_forward plain_prims (ContextNet_init zero_dict 32) (zeros 1 3 32 32) (zeros 1 2 16 16) =
        Inr [f1, f2, f3, f4] \<and>
      shape f1 = (1, 32, 8, 8) \<and> shape f2 = (1, 64, 4, 4) \<and>
      shape f3 = (1, 128, 2, 2) \<and> shape f4 = (1, 256, 1, 1) \<and>
      halve plain_prims (zeros 1 2 16 16) = Inr g1 \<and> halve plain_prims g1 = Inr g2 \<and>
      halve plain_prims g2 = Inr g3 \<and> halve plain_prims g3 = Inr g4"
proof -
  note T = ContextNet_pyramid [of plain_prims "ContextNet_init zero_dict 32" "zeros 1 3 32 32"
      "zeros 1 2 16 16" 1 32 32 16 16 1 1 zero_dict 32]
  have "warp_contract plain_prims \<and> shape (zeros 1 3 32 32) = (1, 3, 32, 32) \<and>
    shape (zeros 1 2 16 16) = (1, 2, 16, 16) \<and>
    out_size (out_size 32 2) 2 = 8 * 1 \<and> (16::nat) div 2 = 8 * 1 \<and>
    out_size (out_size 32 2) 2 = 8 * 1 \<and> (16::nat) div 2 = 8 * 1 \<and> 0 < (1::nat) \<and> 0 < (1::nat)"
    by (simp add: plain_prims_contract shape_zeros out_size_def)
  from T [THEN conjunct2, THEN mp, OF this]
  obtain f1 f2 f3 f4 where
    fw: "ContextNet_forward plain_prims (ContextNet_init zero_dict 32) (zeros 1 3 32 32)
           (zeros 1 2 16 16) = Inr [f1, f2, f3, f4]"
    and s: "shape f1 = (1, 32, 8 * 1, 8 * 1)" "shape f2 = (1, 2 * 32, 4 * 1, 4 * 1)"
      "shape f3 = (1, 4 * 32, 2 * 1, 2 * 1)" "shape f4 = (1, 8 * 32, 1, 1)"
    by (elim exE conjE) (rule that)
  from T [THEN conjunct1, THEN spec, THEN mp, OF fw]
  obtain g1 g2 g3 g4 where
    "halve plain_prims (zeros 1 2 16 16) = Inr g1" "halve plain_prims g1 = Inr g2"
    "halve plain_prims g2 = Inr g3" "halve plain_prims g3 = Inr g4"
    by (elim exE conjE) (rule that)
  with fw s show ?thesis
    apply -
    apply (rule exI [of _ f1], rule exI [of _ f2], rule exI [of _ f3], rule exI [of _ f4],
        rule exI [of _ g1], rule exI [of _ g2], rule exI [of _ g3], rule exI [of _ g4])
    apply (intro conjI; simp)
    done
qed

text \<open>C7, as the claim states it, fails: \<open>ContextNet.forward\<close> does not return on every image
  and flow. On an image of 2 by 2 pixels with a flow of 1 by 1 the two first convolutions
  succeed and the first halving of the flow raises a RuntimeError (the output size would be
  zero), so no list of four levels is returned.\<close>

theorem ContextNet_every_input_counterexample:
  "ContextNet_forward plain_prims (ContextNet_init zero_dict 32) (zeros 1 3 2 2) (zeros 1 2 1 1) =
     Inl RuntimeError"
proof -
  let ?net = "ContextNet_init zero_dict 32"
  have f: "ContextNet.conv0 ?net = conv (sub zero_dict ''conv0'') 3 32 3 2 1 1 (Some ''rife'')"
    "ContextNet.conv1 ?net = ResBlock_init (sub zero_dict ''conv1'') 32 32 2 (Some ''rife'')"
    by (simp_all add: ContextNet_init_def)
  have "yields (call (ContextNet.conv0 ?net) (zeros 1 3 2 2))
          (\<lambda>y. shape y = (1, 32, out_size 2 2, out_size 2 2))"
    unfolding f by (intro call_conv_k3 [OF _ shape_zeros]) simp_all
  then obtain x0 where x0: "call (ContextNet.conv0 ?net) (zeros 1 3 2 2) = Inr x0"
    and sx0: "shape x0 = (1, 32, out_size 2 2, out_size 2 2)" by (rule yieldsE)
  have "yields (ResBlock_forward (ContextNet.conv1 ?net) x0)
          (\<lambda>y. shape y = (1, 32, out_size (out_size 2 2) 2, out_size (out_size 2 2) 2))"
    unfolding f by (intro ResBlock_forward_shape [OF _ sx0]) simp_all
  then obtain x1 where x1: "ResBlock_forward (ContextNet.conv1 ?net) x0 = Inr x1"
    by (rule yieldsE)
  have h: "halve plain_prims (zeros 1 2 1 1) = Inl RuntimeError"
    by (simp add: halve_def interpolate_def zeros_def)
  show ?thesis unfolding ContextNet_forward_def by (simp only: x0 x1 h bindE_Inr bindE_Inl)
qed


subsection \<open>FusionNet\<close>

text \<open>
  The inputs \<open>FusionNet.forward\<close> is given by \<open>RIFE.forward\<close>: two images of three channels
  whose height and width are positive multiples of 32, a flow of two channels of the same
  size, the two context pyramids of four levels, and an optional ground-truth flow of at
  least four channels of the size of the images (\<open>gt_shaped\<close>).

  C3, as the code has it. Whenever \<open>FusionNet.forward\<close> returns, the first tensor \<open>x\<close> it
  returns has exactly 4 channels (three residual colour channels and one mask channel): the
  last convolution \<open>self.conv\<close>, applied to the result of the decoder, produces a tensor \<open>t\<close>
  of 16 channels, and \<open>x\<close> is the pixel shuffle by the factor 2 of \<open>t\<close>, with a quarter of
  its channels and twice its height and width (\<open>fusion_chain\<close> lists the steps from the
  inputs to \<open>t\<close> and \<open>x\<close>). On the inputs described above \<open>FusionNet.forward\<close> does return,
  \<open>t\<close> has half the resolution of the images and \<open>x\<close> has their resolution.
\<close>

theorem FusionNet_output_channels:
  "(\<forall>x w0 w1 g0 g1.
      FusionNet_forward P (FusionNet_init \<theta> c) img0 img1 flow c0 c1 flow_gt = Inr (x, w0, w1, g0, g1) \<longrightarrow>
      (\<exists>t. fusion_chain P (FusionNet_init \<theta> c) img0 img1 flow c0 c1 w0 w1 t x \<and>
           conv' (FusionNet_init \<theta> c) = Conv2d c 16 3 1 1 1 True (\<theta> ''conv'') \<and>
           up4 (FusionNet_init \<theta> c) = PixelShuffle 2 \<and>
           chans t = 16 \<and> chans x = 4 \<and>
           height x = 2 * height t \<and> width x = 2 * width t)) \<and>
   (warp_contract P \<and>
    shape img0 = (n, 3, 32 * a, 32 * b) \<and> shape img1 = (n, 3, 32 * a, 32 * b) \<and>
    shape flow = (n, 2, 32 * a, 32 * b) \<and>
    shape c00 = (n, 32, 8 * a, 8 * b) \<and> shape c01 = (n, 64, 4 * a, 4 * b) \<and>
    shape c02 = (n, 128, 2 * a, 2 * b) \<and> shape c03 = (n, 256, a, b) \<and>
    shape c10 = (n, 32, 8 * a, 8 * b) \<and> shape c11 = (n, 64, 4 * a, 4 * b) \<and>
    shape c12 = (n, 128, 2 * a, 2 * b) \<and> shape c13 = (n, 256, a, b) \<and>
    gt_shaped flow_gt n (32 * a) (32 * b) \<and> 0 < a \<and> 0 < b \<longrightarrow>
      (\<exists>x t w0 w1 g0 g1.
         FusionNet_forward P (FusionNet_init \<theta> 32) img0 img1 flow
           [c00, c01, c02, c03] [c10, c11, c12, c13] flow_gt = Inr (x, w0, w1, g0, g1) \<and>
         fusion_chain P (FusionNet_init \<theta> 32) img0 img1 flow
           [c00, c01, c02, c03] [c10, c11, c12, c13] w0 w1 t x \<and>
         chans t = 16 \<and> height t = 16 * a \<and> width t = 16 * b \<and>
         shape x = (n, 4, 32 * a, 32 * b)))"
proof -
  have A: "\<exists>t. fusion_chain P (FusionNet_init \<theta>' c') i0 i1 fl d0 d1 w0 w1 t x \<and>
           conv' (FusionNet_init \<theta>' c') = Conv2d c' 16 3 1 1 1 True (\<theta>' ''conv'') \<and>
           up4 (FusionNet_init \<theta>' c') = PixelShuffle 2 \<and>
           chans t = 16 \<and> chans x = 4 \<and>
           height x = 2 * height t \<and> width x = 2 * width t"
    if fw: "FusionNet_forward P (FusionNet_init \<theta>' c') i0 i1 fl d0 d1 flow_gt = Inr (x, w0, w1, g0, g1)"
    for \<theta>' c' i0 i1 fl d0 d1 x w0 w1 g0 g1
  proof -
    have f: "conv' (FusionNet_init \<theta>' c') = Conv2d c' 16 3 1 1 1 True (\<theta>' ''conv'')"
      "up4 (FusionNet_init \<theta>' c') = PixelShuffle 2"
      by (simp_all add: FusionNet_init_def)
    from FusionNet_forward_chain [OF fw]
    obtain t where ch: "fusion_chain P (FusionNet_init \<theta>' c') i0 i1 fl d0 d1 w0 w1 t x" ..
    then obtain u3 where c: "forward (conv' (FusionNet_init \<theta>' c')) u3 = Inr t"
      and u: "forward (up4 (FusionNet_init \<theta>' c')) t = Inr x"
      unfolding fusion_chain_def by (elim exE conjE) (rule that)
    from c have ct: "chans t = 16" unfolding f by (rule forward_Conv2d_chans)
    from u have u': "forward (PixelShuffle 2) t = Inr x" unfolding f .
    from forward_PixelShuffle_2_inv(1-3) [OF u'] ct
    have "chans x = 4" "height x = 2 * height t" "width x = 2 * width t" by simp_all
    with ch f ct show ?thesis by (intro exI [of _ t] conjI)
  qed
  have B: "\<exists>x t w0 w1 g0 g1.
         FusionNet_forward P (FusionNet_init \<theta> 32) img0 img1 flow
           [c00, c01, c02, c03] [c10, c11, c12, c13] flow_gt = Inr (x, w0, w1, g0, g1) \<and>
         fusion_chain P (FusionNet_init \<theta> 32) img0 img1 flow
           [c00, c01, c02, c03] [c10, c11, c12, c13] w0 w1 t x \<and>
         chans t = 16 \<and> height t = 16 * a \<and> width t = 16 * b \<and>
         shape x = (n, 4, 32 * a, 32 * b)"
    if h: "warp_contract P \<and>
      shape img0 = (n, 3, 32 * a, 32 * b) \<and> shape img1 = (n, 3, 32 * a, 32 * b) \<and>
      shape flow = (n, 2, 32 * a, 32 * b) \<and>
      shape c00 = (n, 32, 8 * a, 8 * b) \<and> shape c01 = (n, 64, 4 * a, 4 * b) \<and>
      shape c02 = (n, 128, 2 * a, 2 * b) \<and> shape c03 = (n, 256, a, b) \<and>
      shape c10 = (n, 32, 8 * a, 8 * b) \<and> shape c11 = (n, 64, 4 * a, 4 * b) \<and>
      shape c12 = (n, 128, 2 * a, 2 * b) \<and> shape c13 = (n, 256, a, b) \<and>
      gt_shaped flow_gt n (32 * a) (32 * b) \<and> 0 < a \<and> 0 < b"
  proof -
    from h have "\<exists>x t w0 w1 g0 g1.
           FusionNet_forward P (FusionNet_init \<theta> 32) img0 img1 flow
             [c00, c01, c02, c03] [c10, c11, c12, c13] flow_gt = Inr (x, w0, w1, g0, g1) \<and>
           warp P img0 flow = Inr w0 \<and> warp P img1 (neg flow) = Inr w1 \<and>
           gt_warps P img0 img1 flow_gt g0 g1 \<and>
           forward (up4 (FusionNet_init \<theta> 32)) t = Inr x \<and>
           shape t = (n, 16, 16 * a, 16 * b) \<and> shape x = (n, 4, 32 * a, 32 * b) \<and>
           shape w0 = (n, 3, 32 * a, 32 * b) \<and> shape w1 = (n, 3, 32 * a, 32 * b)"
      by (elim conjE) (rule FusionNet_forward_trace)
    then obtain x w0 w1 g0 g1 where
      fw: "FusionNet_forward P (FusionNet_init \<theta> 32) img0 img1 flow
             [c00, c01, c02, c03] [c10, c11, c12, c13] flow_gt = Inr (x, w0, w1, g0, g1)"
      and sx: "shape x = (n, 4, 32 * a, 32 * b)"
      by (elim exE conjE) (rule that)
    from A [OF fw] obtain t where
      ch: "fusion_chain P (FusionNet_init \<theta> 32) img0 img1 flow
           [c00, c01, c02, c03] [c10, c11, c12, c13] w0 w1 t x"
      and t: "chans t = 16" "height x = 2 * height t" "width x = 2 * width t"
      by (elim exE conjE) (rule that)
    from sx t have "height t = 16 * a" "width t = 16 * b" by (simp_all add: shape_def)
    with fw ch t(1) sx show ?thesis by (intro exI [of _ x] exI [of _ t] exI [of _ w0] exI [of _ w1] exI [of _ g0] exI [of _ g1] conjI)
  qed
  from A B show ?thesis by (intro conjI allI impI)
qed

theorem FusionNet_output_channels_witness:
  "\<exists>x t w0 w1 g0 g1.
     FusionNet_forward plain_prims (FusionNet_init zero_dict 32)
       (zeros 1 3 32 32) (zeros 1 3 32 32) (zeros 1 2 32 32)
       [zeros 1 32 8 8, zeros 1 64 4 4, zeros 1 128 2 2, zeros 1 256 1 1]
       [zeros 1 32 8 8, zeros 1 64 4 4, zeros 1 128 2 2, zeros 1 256 1 1] None
     = Inr (x, w0, w1, g0, g1) \<and>
     fusion_chain plain_prims (FusionNet_init zero_dict 32)
       (zeros 1 3 32 32) (zeros 1 3 32 32) (zeros 1 2 32 32)
       [zeros 1 32 8 8, zeros 1 64 4 4, zeros 1 128 2 2, zeros 1 256 1 1]
       [zeros 1 32 8 8, zeros 1 64 4 4, zeros 1 128 2 2, zeros 1 256 1 1] w0 w1 t x \<and>
     chans t = 16 \<and> chans x = 4 \<and> height x = 2 * height t \<and> width x = 2 * width t \<and>
     shape x = (1, 4, 32, 32)"
proof -
  note T = FusionNet_output_channels [of plain_prims zero_dict 32
      "zeros 1 3 32 32" "zeros 1 3 32 32" "zeros 1 2 32 32"
      "[zeros 1 32 8 8, zeros 1 64 4 4, zeros 1 128 2 2, zeros 1 256 1 1]"
      "[zeros 1 32 8 8, zeros 1 64 4 4, zeros 1 128 2 2, zeros 1 256 1 1]" None
      1 1 1 "zeros 1 32 8 8" "zeros 1 64 4 4" "zeros 1 128 2 2" "zeros 1 256 1 1"
      "zeros 1 32 8 8" "zeros 1 64 4 4" "zeros 1 128 2 2" "zeros 1 256 1 1"]
  have "warp_contract plain_prims \<and>
    shape (zeros 1 3 32 32) = (1, 3, 32 * 1, 32 * 1) \<and> shape (zeros 1 3 32 32) = (1, 3, 32 * 1, 32 * 1) \<and>
    shape (zeros 1 2 32 32) = (1, 2, 32 * 1, 32 * 1) \<and>
    shape (zeros 1 32 8 8) = (1, 32, 8 * 1, 8 * 1) \<and> shape (zeros 1 64 4 4) = (1, 64, 4 * 1, 4 * 1) \<and>
    shape (zeros 1 128 2 2) = (1, 128, 2 * 1, 2 * 1) \<and> shape (zeros 1 256 1 1) = (1, 256, 1, 1) \<and>
    shape (zeros 1 32 8 8) = (1, 32, 8 * 1, 8 * 1) \<and> shape (zeros 1 64 4 4) = (1, 64, 4 * 1, 4 * 1) \<and>
    shape (zeros 1 128 2 2) = (1, 128, 2 * 1, 2 * 1) \<and> shape (zeros 1 256 1 1) = (1, 256, 1, 1) \<and>
    gt_shaped None 1 (32 * 1) (32 * 1) \<and> 0 < (1::nat) \<and> 0 < (1::nat)"
    by (simp add: plain_prims_contract shape_zeros gt_shaped_def)
  from T [THEN conjunct2, THEN mp, OF this]
  obtain x w0 w1 g0 g1 where
    fw: "FusionNet_forward plain_prims (FusionNet_init zero_dict 32)
       (zeros 1 3 32 32) (zeros 1 3 32 32) (zeros 1 2 32 32)
       [zeros 1 32 8 8, zeros 1 64 4 4, zeros 1 128 2 2, zeros 1 256 1 1]
       [zeros 1 32 8 8, zeros 1 64 4 4, zeros 1 128 2 2, zeros 1 256 1 1] None
     = Inr (x, w0, w1, g0, g1)"
    and sx: "shape x = (1, 4, 32 * 1, 32 * 1)"
    by (elim exE conjE) (rule that)
  from T [THEN conjunct1, THEN spec, THEN spec, THEN spec, THEN spec, THEN spec, THEN mp, OF fw]
  obtain t where
    "fusion_chain plain_prims (FusionNet_init zero_dict 32)
       (zeros 1 3 32 32) (zeros 1 3 32 32) (zeros 1 2 32 32)
       [zeros 1 32 8 8, zeros 1 64 4 4, zeros 1 128 2 2, zeros 1 256 1 1]
       [zeros 1 32 8 8, zeros 1 64 4 4, zeros 1 128 2 2, zeros 1 256 1 1] w0 w1 t x"
    "chans t = 16" "chans x = 4" "height x = 2 * height t" "width x = 2 * width t"
    by (elim exE conjE) (rule that)
  with fw sx show ?thesis
    by (intro exI [of _ x] exI [of _ t] exI [of _ w0] exI [of _ w1] exI [of _ g0] exI [of _ g1] conjI) simp_all
qed


text \<open>C3, as the claim states it, fails: on images of 32 by 32 pixels the first tensor
  returned has 4 channels, not 16.\<close>

theorem FusionNet_16_channels_counterexample:
  "\<not> isl (FusionNet_forward plain_prims (FusionNet_init zero_dict 32)
       (zeros 1 3 32 32) (zeros 1 3 32 32) (zeros 1 2 32 32)
       [zeros 1 32 8 8, zeros 1 64 4 4, zeros 1 128 2 2, zeros 1 256 1 1]
       [zeros 1 32 8 8, zeros 1 64 4 4, zeros 1 128 2 2, zeros 1 256 1 1] None) \<and>
   chans (fst (projr (FusionNet_forward plain_prims (FusionNet_init zero_dict 32)
       (zeros 1 3 32 32) (zeros 1 3 32 32) (zeros 1 2 32 32)
       [zeros 1 32 8 8, zeros 1 64 4 4, zeros 1 128 2 2, zeros 1 256 1 1]
       [zeros 1 32 8 8, zeros 1 64 4 4, zeros 1 128 2 2, zeros 1 256 1 1] None))) \<noteq> 16"
proof -
  have g: "gt_shaped None 1 (32 * 1) (32 * 1)" by (simp add: gt_shaped_def)
  have pos: "0 < (1::nat)" by simp
  have s: "shape (zeros 1 3 32 32) = (1, 3, 32 * 1, 32 * 1)"
    "shape (zeros 1 2 32 32) = (1, 2, 32 * 1, 32 * 1)"
    "shape (zeros 1 32 8 8) = (1, 32, 8 * 1, 8 * 1)" "shape (zeros 1 64 4 4) = (1, 64, 4 * 1, 4 * 1)"
    "shape (zeros 1 128 2 2) = (1, 128, 2 * 1, 2 * 1)" "shape (zeros 1 256 1 1) = (1, 256, 1, 1)"
    by (simp_all add: shape_zeros)
  from FusionNet_forward_trace [OF plain_prims_contract s(1) s(1) s(2) s(3-6) s(3-6) g pos pos,
      of zero_dict]
  obtain x w0 w1 g0 g1 where
    "FusionNet_forward plain_prims (FusionNet_init zero_dict 32)
       (zeros 1 3 32 32) (zeros 1 3 32 32) (zeros 1 2 32 32)
       [zeros 1 32 8 8, zeros 1 64 4 4, zeros 1 128 2 2, zeros 1 256 1 1]
       [zeros 1 32 8 8, zeros 1 64 4 4, zeros 1 128 2 2, zeros 1 256 1 1] None
     = Inr (x, w0, w1, g0, g1)" "shape x = (1, 4, 32 * 1, 32 * 1)"
    by blast
  then show ?thesis by (simp add: shape_def)
qed


text \<open>
  C4. On the inputs described above, \<open>FusionNet.forward\<close> returns \<open>warped_img0_gt\<close> and
  \<open>warped_img1_gt\<close> both \<open>None\<close> exactly when \<open>flow_gt\<close> is \<open>None\<close>; when a ground-truth flow
  is supplied both are tensors, the first image warped by the channels 0 and 1 of the flow
  (\<open>flow_gt[:, :2]\<close>) and the second image warped by its channels 2 and 3
  (\<open>flow_gt[:, 2:4]\<close>).
\<close>

theorem FusionNet_gt_outputs:
  assumes "warp_contract P"
    and "shape img0 = (n, 3, 32 * a, 32 * b)" and "shape img1 = (n, 3, 32 * a, 32 * b)"
    and "shape flow = (n, 2, 32 * a, 32 * b)"
    and "shape c00 = (n, 32, 8 * a, 8 * b)" "shape c01 = (n, 64, 4 * a, 4 * b)"
      "shape c02 = (n, 128, 2 * a, 2 * b)" "shape c03 = (n, 256, a, b)"
    and "shape c10 = (n, 32, 8 * a, 8 * b)" "shape c11 = (n, 64, 4 * a, 4 * b)"
      "shape c12 = (n, 128, 2 * a, 2 * b)" "shape c13 = (n, 256, a, b)"
    and "gt_shaped flow_gt n (32 * a) (32 * b)" and "0 < a" and "0 < b"
  shows "\<exists>x w0 w1 g0 g1.
           FusionNet_forward P (FusionNet_init \<theta> 32) img0 img1 flow
             [c00, c01, c02, c03] [c10, c11, c12, c13] flow_gt = Inr (x, w0, w1, g0, g1) \<and>
           (g0 = None \<and> g1 = None \<longleftrightarrow> flow_gt = None) \<and>
           (\<forall>g. flow_gt = Some g \<longrightarrow>
              (\<exists>u v. g0 = Some u \<and> g1 = Some v \<and>
                 warp P img0 (slice g 0 (Some 2)) = Inr u \<and>
                 warp P img1 (slice g 2 (Some 4)) = Inr v))"
proof -
  from FusionNet_forward_trace [OF assms, of \<theta>]
  obtain x w0 w1 g0 g1 where
    fw: "FusionNet_forward P (FusionNet_init \<theta> 32) img0 img1 flow
             [c00, c01, c02, c03] [c10, c11, c12, c13] flow_gt = Inr (x, w0, w1, g0, g1)"
    and gw: "gt_warps P img0 img1 flow_gt g0 g1"
    by blast
  from gw have "(g0 = None \<and> g1 = None \<longleftrightarrow> flow_gt = None) \<and>
           (\<forall>g. flow_gt = Some g \<longrightarrow>
              (\<exists>u v. g0 = Some u \<and> g1 = Some v \<and>
                 warp P img0 (slice g 0 (Some 2)) = Inr u \<and>
                 warp P img1 (slice g 2 (Some 4)) = Inr v))"
    by (cases flow_gt) (auto simp: gt_warps_def)
  with fw have "FusionNet_forward P (FusionNet_init \<theta> 32) img0 img1 flow
             [c00, c01, c02, c03] [c10, c11, c12, c13] flow_gt = Inr (x, w0, w1, g0, g1) \<and>
           (g0 = None \<and> g1 = None \<longleftrightarrow> flow_gt = None) \<and>
           (\<forall>g. flow_gt = Some g \<longrightarrow>
              (\<exists>u v. g0 = Some u \<and> g1 = Some v \<and>
                 warp P img0 (slice g 0 (Some 2)) = Inr u \<and>
                 warp P img1 (slice g 2 (Some 4)) = Inr v))"
    by (rule conjI)
  then show ?thesis by - ((rule exI)+, assumption)
qed

theorem FusionNet_gt_outputs_witness:
  "(\<exists>x w0 w1.
     FusionNet_forward plain_prims (FusionNet_init zero_dict 32)
       (zeros 1 3 32 32) (zeros 1 3 32 32) (zeros 1 2 32 32)
       [zeros 1 32 8 8, zeros 1 64 4 4, zeros 1 128 2 2, zeros 1 256 1 1]
       [zeros 1 32 8 8, zeros 1 64 4 4, zeros 1 128 2 2, zeros 1 256 1 1] None
     = Inr (x, w0, w1, None, None)) \<and>
   (\<exists>x w0 w1 u v.
     FusionNet_forward plain_prims (FusionNet_init zero_dict 32)
       (zeros 1 3 32 32) (zeros 1 3 32 32) (zeros 1 2 32 32)
       [zeros 1 32 8 8, zeros 1 64 4 4, zeros 1 128 2 2, zeros 1 256 1 1]
       [zeros 1 32 8 8, zeros 1 64 4 4, zeros 1 128 2 2, zeros 1 256 1 1] (Some (zeros 1 4 32 32))
     = Inr (x, w0, w1, Some u, Some v))"
proof -
  have 1: "gt_shaped None 1 (32 * 1) (32 * 1)"
    and 2: "gt_shaped (Some (zeros 1 4 32 32)) 1 (32 * 1) (32 * 1)"
    by (simp_all add: gt_shaped_def zeros_def)
  have s: "shape (zeros 1 3 32 32) = (1, 3, 32 * 1, 32 * 1)"
    "shape (zeros 1 2 32 32) = (1, 2, 32 * 1, 32 * 1)"
    "shape (zeros 1 32 8 8) = (1, 32, 8 * 1, 8 * 1)" "shape (zeros 1 64 4 4) = (1, 64, 4 * 1, 4 * 1)"
    "shape (zeros 1 128 2 2) = (1, 128, 2 * 1, 2 * 1)" "shape (zeros 1 256 1 1) = (1, 256, 1, 1)"
    by (simp_all add: shape_zeros)
  have pos: "0 < (1::nat)" by simp
  from FusionNet_gt_outputs [OF plain_prims_contract s(1) s(1) s(2) s(3-6) s(3-6) 1 pos pos, of zero_dict]
  have a: "\<exists>x w0 w1.
     FusionNet_forward plain_prims (FusionNet_init zero_dict 32)
       (zeros 1 3 32 32) (zeros 1 3 32 32) (zeros 1 2 32 32)
       [zeros 1 32 8 8, zeros 1 64 4 4, zeros 1 128 2 2, zeros 1 256 1 1]
       [zeros 1 32 8 8, zeros 1 64 4 4, zeros 1 128 2 2, zeros 1 256 1 1] None
     = Inr (x, w0, w1, None, None)"
    by auto
  from FusionNet_gt_outputs [OF plain_prims_contract s(1) s(1) s(2) s(3-6) s(3-6) 2 pos pos, of zero_dict]
  have b: "\<exists>x w0 w1 u v.
     FusionNet_forward plain_prims (FusionNet_init zero_dict 32)
       (zeros 1 3 32 32) (zeros 1 3 32 32) (zeros 1 2 32 32)
       [zeros 1 32 8 8, zeros 1 64 4 4, zeros 1 128 2 2, zeros 1 256 1 1]
       [zeros 1 32 8 8, zeros 1 64 4 4, zeros 1 128 2 2, zeros 1 256 1 1] (Some (zeros 1 4 32 32))
     = Inr (x, w0, w1, Some u, Some v)"
    by auto
  from a b show ?thesis by (rule conjI)
qed


subsection \<open>RIFE\<close>

text \<open>
  C1, as the code has it. For two images of identical shape, three channels each, whose
  height and width are positive multiples of 32, \<open>RIFE.forward\<close> with \<open>training = False\<close>
  returns a single tensor of the shape of \<open>img0\<close>, every element of which is \<open>NaN\<close> or lies
  in the interval from 0 to 1: \<open>torch.clamp\<close> bounds every number and passes \<open>NaN\<close> through.
\<close>

theorem RIFE_inference_output:
  assumes "warp_contract P"
    and "shape img0 = (n, 3, 32 * a, 32 * b)" and "shape img1 = shape img0"
    and "gt_shaped flow_gt n (32 * a) (32 * b)" and "0 < a" and "0 < b"
  shows "\<exists>p. RIFE_forward P (RIFE_init \<theta>) (Some img0) (Some img1) imgs flow False flow_gt = Inr (Pred p) \<and>
              shape p = shape img0 \<and>
              (\<forall>k c i j. nan_or_unit (elems p k c i j))"
proof -
  from assms(2,3) have i1: "shape img1 = (n, 3, 32 * a, 32 * b)" by simp
  from RIFE_forward_trace [OF assms(1,2) i1 assms(4-), of \<theta> imgs flow False, unfolded if_False]
  obtain pred where
    fw: "RIFE_forward P (RIFE_init \<theta>) (Some img0) (Some img1) imgs flow False flow_gt =
           Inr (Pred (tmap (clamp 0 1) pred))"
    and s: "shape pred = (n, 3, 32 * a, 32 * b)"
    by (elim exE conjE) (rule that)
  have "shape (tmap (clamp 0 1) pred) = shape img0" using s assms(2) by simp
  moreover have "\<forall>k c i j. nan_or_unit (elems (tmap (clamp 0 1) pred) k c i j)"
    by (simp only: elems_tmap clamp_unit simp_thms)
  ultimately show ?thesis using fw by (intro exI [of _ "tmap (clamp 0 1) pred"] conjI)
qed

theorem RIFE_inference_output_witness:
  "\<exists>p. RIFE_forward plain_prims (RIFE_init zero_dict) (Some (zeros 1 3 32 32)) (Some (zeros 1 3 32 32))
          None None False None = Inr (Pred p) \<and>
        shape p = (1, 3, 32, 32) \<and> (\<forall>k c i j. nan_or_unit (elems p k c i j))"
  using RIFE_inference_output [OF plain_prims_contract, of "zeros 1 3 32 32" 1 1 1 "zeros 1 3 32 32"
      None zero_dict None None]
  by (simp add: shape_zeros gt_shaped_def)

text \<open>C1, as the claim states it, fails: not every element of the result lies in the interval
  from 0 to 1. For a first image of 32 by 32 pixels whose elements are \<open>NaN\<close> the warped image,
  the blend and the sum with the residual are \<open>NaN\<close> at the first position, and \<open>torch.clamp\<close>
  returns \<open>NaN\<close> there.\<close>

theorem RIFE_NaN_prediction_counterexample:
  "\<not> isl (RIFE_forward plain_prims (RIFE_init zero_dict) (Some (nans 1 3 32 32))
       (Some (zeros 1 3 32 32)) None None False None) \<and>
   elems (prediction (projr (RIFE_forward plain_prims (RIFE_init zero_dict) (Some (nans 1 3 32 32))
       (Some (zeros 1 3 32 32)) None None False None))) 0 0 0 0 = NaN \<and>
   \<not> in_unit (elems (prediction (projr (RIFE_forward plain_prims (RIFE_init zero_dict)
       (Some (nans 1 3 32 32)) (Some (zeros 1 3 32 32)) None None False None))) 0 0 0 0)"
proof -
  have g: "gt_shaped None 1 (32 * 1) (32 * 1)" by (simp add: gt_shaped_def)
  have pos: "0 < (1::nat)" by simp
  have s: "shape (nans 1 3 32 32) = (1, 3, 32 * 1, 32 * 1)"
    "shape (zeros 1 3 32 32) = (1, 3, 32 * 1, 32 * 1)"
    by (simp_all add: shape_zeros shape_nans)
  from RIFE_forward_trace [OF plain_prims_contract s g pos pos, of zero_dict None None False,
      unfolded if_False]
  obtain imgs f refine w0 q p merged pred where
    c: "cat [nans 1 3 32 32, zeros 1 3 32 32] = Inr imgs"
    and w0: "warp plain_prims (slice imgs 0 (Some 3)) (tmap (lift1 (\<lambda>v. v * 2.0)) f) = Inr w0"
    and p: "tmul w0 (tmap sigmoid (slice refine 3 (Some 4))) = Inr p"
    and m: "tadd p q = Inr merged"
    and pr: "tadd merged (tmap (lift1 (\<lambda>v. v * 2 - 1)) (tmap sigmoid (slice refine 0 (Some 3)))) = Inr pred"
    and fw: "RIFE_forward plain_prims (RIFE_init zero_dict) (Some (nans 1 3 32 32))
       (Some (zeros 1 3 32 32)) None None False None = Inr (Pred (tmap (clamp 0 1) pred))"
    by (elim exE conjE) (rule that)
  from plain_warp_id [OF w0] have "elems w0 0 0 0 0 = elems imgs 0 0 0 0"
    by (simp add: elems_slice0)
  also have "\<dots> = elems (nans 1 3 32 32) 0 0 0 0"
    by (rule elems_cat2_first [OF c]) (simp add: nans_def)
  finally have 1: "elems w0 0 0 0 0 = NaN" by (simp add: nans_def)
  from elems_binop_origin [OF p [unfolded tmul_def]] 1 have 2: "elems p 0 0 0 0 = NaN" by simp
  from elems_binop_origin [OF m [unfolded tadd_def]] 2 have 3: "elems merged 0 0 0 0 = NaN" by simp
  from elems_binop_origin [OF pr [unfolded tadd_def]] 3 have 4: "elems pred 0 0 0 0 = NaN" by simp
  then have "elems (tmap (clamp 0 1) pred) 0 0 0 0 = NaN" by (simp add: elems_tmap)
  with fw show ?thesis by (simp add: in_unit_def)
qed


text \<open>
  C6, as the code has it. On the same inputs, in either mode, \<open>RIFE.forward\<close> computes, with
  \<open>imgs\<close> the concatenation of the two images, \<open>refine\<close> the first output of the fusion network
  on the two halves of \<open>imgs\<close>, the upsampled and doubled flow of the flow network and the two
  context pyramids, and \<open>w0\<close>, \<open>w1\<close> the two halves of \<open>imgs\<close> warped by that flow and its
  negation: the residual \<open>res\<close>, the sigmoid of the channels 0..2 of \<open>refine\<close> times 2 minus
  1; the mask, the sigmoid of channel 3 of \<open>refine\<close>, every element of which is \<open>NaN\<close> or lies
  between 0 and 1; the blended image \<open>w0 * mask + w1 * (1 - mask)\<close>; and the prediction, the
  blended image plus the residual, clamped to the interval from 0 to 1 (\<open>NaN\<close> is kept).
  In training mode it returns the prediction, the mask, the blended image, the two warped
  images and the two ground-truth warps, in inference mode the prediction alone. The
  arithmetic is that of floating point: a \<open>NaN\<close> operand gives \<open>NaN\<close>.
\<close>

theorem RIFE_blend:
  assumes "warp_contract P"
    and "shape img0 = (n, 3, 32 * a, 32 * b)" and "shape img1 = (n, 3, 32 * a, 32 * b)"
    and "gt_shaped flow_gt n (32 * a) (32 * b)" and "0 < a" and "0 < b"
  shows "\<exists>imgs' fl Fs c0 c1 f refine w0 w1 g0 g1 p q merged pred mask res.
           cat [img0, img1] = Inr imgs' \<and>
           IFNet_forward P (flownet (RIFE_init \<theta>)) imgs' = Inr (fl, Fs) \<and>
           ContextNet_forward P (contextnet (RIFE_init \<theta>)) (slice imgs' 0 (Some 3)) fl = Inr c0 \<and>
           ContextNet_forward P (contextnet (RIFE_init \<theta>)) (slice imgs' 3 None) (neg fl) = Inr c1 \<and>
           interpolate P fl 2 1 = Inr f \<and>
           FusionNet_forward P (fusionnet (RIFE_init \<theta>)) (slice imgs' 0 (Some 3)) (slice imgs' 3 None)
             (tmap (lift1 (\<lambda>v. v * 2.0)) f) c0 c1 flow_gt = Inr (refine, w0, w1, g0, g1) \<and>
           warp P (slice imgs' 0 (Some 3)) (tmap (lift1 (\<lambda>v. v * 2.0)) f) = Inr w0 \<and>
           warp P (slice imgs' 3 None) (neg (tmap (lift1 (\<lambda>v. v * 2.0)) f)) = Inr w1 \<and>
           res = tmap (lift1 (\<lambda>v. v * 2 - 1)) (tmap sigmoid (slice refine 0 (Some 3))) \<and>
           mask = tmap sigmoid (slice refine 3 (Some 4)) \<and>
           tmul w0 mask = Inr p \<and>
           tmul w1 (tmap (lift1 (\<lambda>v. 1 - v)) mask) = Inr q \<and>
           tadd p q = Inr merged \<and>
           tadd merged res = Inr pred \<and>
           RIFE_forward P (RIFE_init \<theta>) (Some img0) (Some img1) imgs flow training flow_gt =
             Inr (if training then Train (tmap (clamp 0 1) pred) mask merged w0 w1 g0 g1
                  else Pred (tmap (clamp 0 1) pred)) \<and>
           (\<forall>k c i j. nan_or_unit (elems mask k c i j)) \<and>
           (\<forall>k c i j. nan_or_unit (elems (tmap (clamp 0 1) pred) k c i j)) \<and>
           (\<forall>k c i j. k < n \<and> c < 3 \<and> i < 32 * a \<and> j < 32 * b \<longrightarrow>
              elems mask k 0 i j = sigmoid (elems refine k 3 i j) \<and>
              elems res k c i j = lift1 (\<lambda>v. v * 2 - 1) (sigmoid (elems refine k c i j)) \<and>
              elems merged k c i j =
                fadd (fmul (elems w0 k c i j) (elems mask k 0 i j))
                     (fmul (elems w1 k c i j) (lift1 (\<lambda>v. 1 - v) (elems mask k 0 i j))) \<and>
              elems (tmap (clamp 0 1) pred) k c i j =
                clamp 0 1 (fadd (elems merged k c i j) (elems res k c i j)))"
proof -
  let ?S = "(n, 3::nat, 32 * a, 32 * b)"
  from RIFE_forward_trace [OF assms, of \<theta> imgs flow training]
  obtain imgs' fl Fs c0 c1 f refine w0 w1 g0 g1 p q merged pred where
    ct: "cat [img0, img1] = Inr imgs'"
    and fn: "IFNet_forward P (flownet (RIFE_init \<theta>)) imgs' = Inr (fl, Fs)"
    and cn0: "ContextNet_forward P (contextnet (RIFE_init \<theta>)) (slice imgs' 0 (Some 3)) fl = Inr c0"
    and cn1: "ContextNet_forward P (contextnet (RIFE_init \<theta>)) (slice imgs' 3 None) (neg fl) = Inr c1"
    and ip: "interpolate P fl 2 1 = Inr f"
    and fu: "FusionNet_forward P (fusionnet (RIFE_init \<theta>)) (slice imgs' 0 (Some 3)) (slice imgs' 3 None)
             (tmap (lift1 (\<lambda>v. v * 2.0)) f) c0 c1 flow_gt = Inr (refine, w0, w1, g0, g1)"
    and wp0: "warp P (slice imgs' 0 (Some 3)) (tmap (lift1 (\<lambda>v. v * 2.0)) f) = Inr w0"
    and wp1: "warp P (slice imgs' 3 None) (neg (tmap (lift1 (\<lambda>v. v * 2.0)) f)) = Inr w1"
    and p: "tmul w0 (tmap sigmoid (slice refine 3 (Some 4))) = Inr p"
    and q: "tmul w1 (tmap (lift1 (\<lambda>v. 1 - v)) (tmap sigmoid (slice refine 3 (Some 4)))) = Inr q"
    and m: "tadd p q = Inr merged"
    and pr: "tadd merged (tmap (lift1 (\<lambda>v. v * 2 - 1)) (tmap sigmoid (slice refine 0 (Some 3)))) = Inr pred"
    and fw: "RIFE_forward P (RIFE_init \<theta>) (Some img0) (Some img1) imgs flow training flow_gt =
           Inr (if training
                then Train (tmap (clamp 0 1) pred) (tmap sigmoid (slice refine 3 (Some 4))) merged
                       w0 w1 g0 g1
                else Pred (tmap (clamp 0 1) pred))"
    and s: "shape refine = (n, 4, 32 * a, 32 * b)" "shape w0 = ?S" "shape w1 = ?S"
      "shape p = ?S" "shape q = ?S" "shape merged = ?S" "shape pred = ?S"
    by (elim exE conjE) (rule that)
  let ?mask = "tmap sigmoid (slice refine 3 (Some 4))"
  let ?res = "tmap (lift1 (\<lambda>v. v * 2 - 1)) (tmap sigmoid (slice refine 0 (Some 3)))"
  have sm: "shape ?mask = (n, 1, 32 * a, 32 * b)"
    "shape (tmap (lift1 (\<lambda>v. 1 - v)) ?mask) = (n, 1, 32 * a, 32 * b)"
    and sres: "shape ?res = ?S"
    using s(1) by (simp_all add: slice_shape)
  have cr: "chans refine = 4" using s(1) by (simp add: shape_def)
  have bm: "\<forall>k c i j. nan_or_unit (elems ?mask k c i j)"
    by (simp only: elems_tmap sigmoid_unit simp_thms)
  have bp: "\<forall>k c i j. nan_or_unit (elems (tmap (clamp 0 1) pred) k c i j)"
    by (simp only: elems_tmap clamp_unit simp_thms)
  have el: "elems ?mask k 0 i j = sigmoid (elems refine k 3 i j) \<and>
      elems ?res k c i j = lift1 (\<lambda>v. v * 2 - 1) (sigmoid (elems refine k c i j)) \<and>
      elems merged k c i j =
        fadd (fmul (elems w0 k c i j) (elems ?mask k 0 i j))
             (fmul (elems w1 k c i j) (lift1 (\<lambda>v. 1 - v) (elems ?mask k 0 i j))) \<and>
      elems (tmap (clamp 0 1) pred) k c i j =
        clamp 0 1 (fadd (elems merged k c i j) (elems ?res k c i j))"
    if r: "k < n" "c < 3" "i < 32 * a" "j < 32 * b" for k c i j
  proof -
    have 1: "elems ?mask k 0 i j = sigmoid (elems refine k 3 i j)"
      by (simp add: elems_tmap slice_def Let_def cr)
    have 2: "elems p k c i j = fmul (elems w0 k c i j) (elems ?mask k 0 i j)"
      using p r unfolding tmul_def by (intro elems_binop_mask [OF _ s(2) sm(1)]) simp_all
    have 3: "elems q k c i j = fmul (elems w1 k c i j) (lift1 (\<lambda>v. 1 - v) (elems ?mask k 0 i j))"
      using elems_binop_mask [OF q [unfolded tmul_def] s(3) sm(2) r] by (simp add: elems_tmap)
    have d: "batch p = n" "chans p = 3" "height p = 32 * a" "width p = 32 * b"
      "batch merged = n" "chans merged = 3" "height merged = 32 * a" "width merged = 32 * b"
      using s by (simp_all add: shape_def)
    have 4: "elems merged k c i j = fadd (elems p k c i j) (elems q k c i j)"
      using m s r d unfolding tadd_def by (intro elems_binop_same) simp_all
    have 5: "elems pred k c i j = fadd (elems merged k c i j) (elems ?res k c i j)"
      using pr s sres r d unfolding tadd_def by (intro elems_binop_same) simp_all
    have 6: "elems ?res k c i j = lift1 (\<lambda>v. v * 2 - 1) (sigmoid (elems refine k c i j))"
      by (simp add: elems_tmap slice_def Let_def)
    from 1 2 3 4 5 6 show ?thesis by (simp add: elems_tmap)
  qed
  from el have el': "\<forall>k c i j. k < n \<and> c < 3 \<and> i < 32 * a \<and> j < 32 * b \<longrightarrow>
      elems ?mask k 0 i j = sigmoid (elems refine k 3 i j) \<and>
      elems ?res k c i j = lift1 (\<lambda>v. v * 2 - 1) (sigmoid (elems refine k c i j)) \<and>
      elems merged k c i j =
        fadd (fmul (elems w0 k c i j) (elems ?mask k 0 i j))
             (fmul (elems w1 k c i j) (lift1 (\<lambda>v. 1 - v) (elems ?mask k 0 i j))) \<and>
      elems (tmap (clamp 0 1) pred) k c i j =
        clamp 0 1 (fadd (elems merged k c i j) (elems ?res k c i j))"
    by (intro allI impI) (elim conjE)
  show ?thesis
    apply (rule exI [of _ imgs'], rule exI [of _ fl], rule exI [of _ Fs], rule exI [of _ c0],
        rule exI [of _ c1], rule exI [of _ f], rule exI [of _ refine], rule exI [of _ w0],
        rule exI [of _ w1], rule exI [of _ g0], rule exI [of _ g1], rule exI [of _ p],
        rule exI [of _ q], rule exI [of _ merged], rule exI [of _ pred], rule exI [of _ ?mask],
        rule exI [of _ ?res])
    apply (intro conjI; (rule ct fn cn0 cn1 ip fu wp0 wp1 refl p q m pr fw bm bp el'))
    done
qed

theorem RIFE_blend_witness:
  "\<exists>pred mask merged w0 w1 g0 g1.
     RIFE_forward plain_prims (RIFE_init zero_dict) (Some (zeros 1 3 32 32)) (Some (zeros 1 3 32 32))
          None None True None = Inr (Train pred mask merged w0 w1 g0 g1) \<and>
     (\<forall>k c i j. nan_or_unit (elems mask k c i j)) \<and>
     (\<forall>k c i j. nan_or_unit (elems pred k c i j))"
proof -
  have g: "gt_shaped None 1 (32 * 1) (32 * 1)" by (simp add: gt_shaped_def)
  have pos: "0 < (1::nat)" by simp
  have s: "shape (zeros 1 3 32 32) = (1, 3, 32 * 1, 32 * 1)" by (simp add: shape_zeros)
  from RIFE_blend [OF plain_prims_contract s s g pos pos, of zero_dict None None True,
      unfolded if_True]
  obtain pred mask merged w0 w1 g0 g1 where
    "RIFE_forward plain_prims (RIFE_init zero_dict) (Some (zeros 1 3 32 32)) (Some (zeros 1 3 32 32))
          None None True None = Inr (Train (tmap (clamp 0 1) pred) mask merged w0 w1 g0 g1)"
    "\<forall>k c i j. nan_or_unit (elems mask k c i j)"
    "\<forall>k c i j. nan_or_unit (elems (tmap (clamp 0 1) pred) k c i j)"
    by (elim exE conjE) (rule that)
  then show ?thesis
    apply -
    apply (rule exI [of _ "tmap (clamp 0 1) pred"], rule exI [of _ mask], rule exI [of _ merged],
        rule exI [of _ w0], rule exI [of _ w1], rule exI [of _ g0], rule exI [of _ g1])
    apply (intro conjI; assumption)
    done
qed

text \<open>C6, as the claim states it, fails: the mask need not lie in the interval from 0 to 1.
  When the last convolution of the fusion network produces \<open>NaN\<close> (as it does with a \<open>NaN\<close>
  among its parameters), the sigmoid of its channel 3 is \<open>NaN\<close>.\<close>

theorem RIFE_NaN_mask_counterexample:
  "\<not> isl (RIFE_forward plain_prims (RIFE_init nan_dict) (Some (zeros 1 3 32 32))
       (Some (zeros 1 3 32 32)) None None True None) \<and>
   elems (train_mask (projr (RIFE_forward plain_prims (RIFE_init nan_dict) (Some (zeros 1 3 32 32))
       (Some (zeros 1 3 32 32)) None None True None))) 0 0 0 0 = NaN \<and>
   \<not> in_unit (elems (train_mask (projr (RIFE_forward plain_prims (RIFE_init nan_dict)
       (Some (zeros 1 3 32 32)) (Some (zeros 1 3 32 32)) None None True None))) 0 0 0 0)"
proof -
  have g: "gt_shaped None 1 (32 * 1) (32 * 1)" by (simp add: gt_shaped_def)
  have pos: "0 < (1::nat)" by simp
  have s: "shape (zeros 1 3 32 32) = (1, 3, 32 * 1, 32 * 1)" by (simp add: shape_zeros)
  from RIFE_forward_trace [OF plain_prims_contract s s g pos pos, of nan_dict None None True,
      unfolded if_True]
  obtain imgs f c0 c1 refine w0 w1 g0 g1 merged pred where
    fu: "FusionNet_forward plain_prims (fusionnet (RIFE_init nan_dict)) (slice imgs 0 (Some 3))
           (slice imgs 3 None) (tmap (lift1 (\<lambda>v. v * 2.0)) f) c0 c1 None = Inr (refine, w0, w1, g0, g1)"
    and fw: "RIFE_forward plain_prims (RIFE_init nan_dict) (Some (zeros 1 3 32 32))
       (Some (zeros 1 3 32 32)) None None True None =
         Inr (Train (tmap (clamp 0 1) pred) (tmap sigmoid (slice refine 3 (Some 4))) merged
                w0 w1 g0 g1)"
    by (elim exE conjE) (rule that)
  have net: "fusionnet (RIFE_init nan_dict) = FusionNet_init (sub nan_dict ''fusionnet'') 32"
    by (simp add: RIFE_init_def)
  from FusionNet_forward_chain [OF fu] obtain t u3 where
    "forward (conv' (fusionnet (RIFE_init nan_dict))) u3 = Inr t"
    "forward (up4 (fusionnet (RIFE_init nan_dict))) t = Inr refine"
    unfolding fusion_chain_def by (elim exE conjE) (rule that)
  then have "elems refine k c i j = NaN" for k c i j
    unfolding net by (rule nan_dict_conv_elems)
  then have "elems (tmap sigmoid (slice refine 3 (Some 4))) 0 0 0 0 = NaN"
    by (simp add: elems_tmap slice_def Let_def)
  with fw show ?thesis by (simp add: in_unit_def)
qed


subsection \<open>The primitive builders\<close>

text \<open>
  C5. For every mode other than 'rife' and 'ifnet', the default \<open>None\<close> among them, the
  builders \<open>conv\<close> and \<open>conv_woact\<close> return \<open>None\<close>, the value of a function that falls off
  its last branch, and raise nothing (both are total functions into an option type); for
  each of the two modes they return a module.
\<close>

theorem builders_unknown_mode:
  "(mode \<noteq> Some ''rife'' \<and> mode \<noteq> Some ''ifnet'' \<longrightarrow>
      conv \<theta> i out k s p d mode = None \<and> conv_woact \<theta> i out k s p d mode = None) \<and>
   (\<exists>m. conv \<theta> i out k s p d (Some ''rife'') = Some m) \<and>
   (\<exists>m. conv \<theta> i out k s p d (Some ''ifnet'') = Some m) \<and>
   (\<exists>m. conv_woact \<theta> i out k s p d (Some ''rife'') = Some m) \<and>
   (\<exists>m. conv_woact \<theta> i out k s p d (Some ''ifnet'') = Some m)"
  by (simp add: conv_def conv_woact_def)

theorem builders_unknown_mode_witness:
  "conv zero_dict 3 32 3 1 1 1 None = None \<and>
   conv_woact zero_dict 3 32 3 1 1 1 None = None \<and>
   conv zero_dict 3 32 3 1 1 1 (Some ''relu'') = None \<and>
   conv_woact zero_dict 3 32 3 1 1 1 (Some ''relu'') = None"
  using builders_unknown_mode [of None zero_dict 3 32 3 1 1 1]
    builders_unknown_mode [of "Some ''relu''" zero_dict 3 32 3 1 1 1]
  by simp

subsection \<open>The arguments that RIFE.forward overwrites\<close>

text \<open>
  C10. \<open>RIFE.forward\<close> ignores its keyword arguments \<open>imgs\<close> and \<open>flow\<close>: both names are
  assigned before they are read, so two calls that differ in these two arguments only
  give the same result, an error included.
\<close>

theorem RIFE_forward_ignores_imgs_flow:
  "RIFE_forward P self img0 img1 imgs flow training flow_gt =
   RIFE_forward P self img0 img1 imgs' flow' training flow_gt"
  by (simp add: RIFE_forward_def)

end
